theory Spec2Isabelle
  imports Complex_Main "HOL-Library.Word" "HOL-Library.Sublist"
begin

section \<open>Messages\<close>

text \<open>
  \<open>std_msgs::Header\<close> and \<open>visualization_msgs::Marker\<close>, with the fields that
  \<open>reconstruction_visualizer.cpp\<close> reads or writes. The stamp is kept as the
  nanosecond count handed to \<open>fromNSec\<close>. A marker's \<open>id\<close> is a 32-bit signed integer,
  held as an \<open>int\<close>; the one place where the source narrows a \<open>size_t\<close> into it is
  written out (\<open>int32_of_size_t\<close>). The type of a point is left open: only the number of
  points is ever inspected.
\<close>

record Header =
  frame_id :: string
  stamp :: "64 word"

datatype Action = ADD | DELETE

record 'p Marker =
  marker_header :: Header
  marker_ns :: string
  marker_id :: int
  marker_action :: Action
  marker_points :: "'p list"

text \<open>A default-constructed header and marker (\<open>Marker delete_label;\<close>).\<close>

definition Header_default :: Header where
  "Header_default = \<lparr>frame_id = [], stamp = 0\<rparr>"

definition Marker_default :: "'p Marker" where
  "Marker_default =
     \<lparr>marker_header = Header_default, marker_ns = [], marker_id = 0,
      marker_action = ADD, marker_points = []\<rparr>"

text \<open>What goes over a topic: one marker or a marker array.\<close>

datatype 'p Message = MarkerMsg "'p Marker" | MarkerArrayMsg "'p Marker list"

definition int32_of_size_t :: "nat \<Rightarrow> int" where
  "int32_of_size_t n = sint (word_of_nat n :: 32 word)"

section \<open>Errors\<close>

text \<open>\<open>std::vector::at\<close> throws \<open>std::out_of_range\<close>; nothing in the file catches it.\<close>

datatype error = OutOfRange

definition and_then :: "error + 'a \<Rightarrow> ('a \<Rightarrow> error + 'b) \<Rightarrow> error + 'b" where
  "and_then r f = (case r of Inl e \<Rightarrow> Inl e | Inr x \<Rightarrow> f x)"

text \<open>\<open>markers.markers.at(i).header = header\<close>\<close>

definition assign_header_at ::
  "'p Marker list \<Rightarrow> nat \<Rightarrow> Header \<Rightarrow> error + 'p Marker list" where
  "assign_header_at markers i header =
     (if i < length markers
      then Inr (markers[i := (markers ! i)\<lparr>marker_header := header\<rparr>])
      else Inl OutOfRange)"

section \<open>\<open>std::set<int>\<close>\<close>

text \<open>
  An ordered set of ints is the ascending list of its elements, which is also the order
  a range-for visits them in.
\<close>

definition set_insert :: "int \<Rightarrow> int list \<Rightarrow> int list" where
  "set_insert x s = (if x \<in> set s then s else insort x s)"

definition set_count :: "int list \<Rightarrow> int \<Rightarrow> nat" where
  "set_count s x = (if x \<in> set s then 1 else 0)"

section \<open>Configuration and inputs\<close>

record LayerConfig =
  use_label :: bool
  use_sphere_marker :: bool
  marker_scale :: real
  marker_alpha :: real

text \<open>
  \<open>ReconstructionVisualizerConfig\<close>: the fields of \<open>declare_config\<close> and the members
  \<open>config_.gvd\<close>, \<open>config_.colormap\<close>, \<open>config_.graph\<close> and \<open>config_.graph_layer\<close>. The first
  three are only handed on to the marker builders, so their types stay open.
\<close>

record ('gc, 'cc, 'vc) ReconstructionVisualizerConfig =
  world_frame :: string
  topology_marker_ns :: string
  show_block_outlines :: bool
  use_gvd_block_outlines :: bool
  outline_scale :: real
  config_gvd :: 'gc
  config_colormap :: 'cc
  config_graph :: 'vc
  config_graph_layer :: LayerConfig

text \<open>
  A scene graph layer with \<open>nodes()\<close> (an id-ordered map to nodes) and \<open>edges()\<close>; a GVD
  graph is the list of its members, \<open>empty()\<close> being \<open>= []\<close>.
\<close>

record ('n, 'e) SceneGraphLayer =
  nodes :: "(nat \<times> 'n) list"
  edges :: "'e list"

type_synonym NodeColor = "8 word \<times> 8 word \<times> 8 word"

definition NodeColor_Zero :: NodeColor where
  "NodeColor_Zero = (0, 0, 0)"

text \<open>
  The extractor behind the \<open>GraphExtractorInterface\<close> pointer: any extractor offers
  \<open>getGraph\<close> and \<open>getGvdGraph\<close>; a \<open>CompressionGraphExtractor\<close> also offers the compressed
  node info and remapping. A null pointer is \<open>None\<close>.
\<close>

datatype ('n, 'e, 'm, 'i, 'r) Extractor =
  GraphExtractor "('n, 'e) SceneGraphLayer" "'m list"
| CompressionGraphExtractor "('n, 'e) SceneGraphLayer" "'m list" 'i 'r

fun getGraph :: "('n, 'e, 'm, 'i, 'r) Extractor \<Rightarrow> ('n, 'e) SceneGraphLayer" where
  "getGraph (GraphExtractor g v) = g"
| "getGraph (CompressionGraphExtractor g v i r) = g"

fun getGvdGraph :: "('n, 'e, 'm, 'i, 'r) Extractor \<Rightarrow> 'm list" where
  "getGvdGraph (GraphExtractor g v) = v"
| "getGvdGraph (CompressionGraphExtractor g v i r) = v"

text \<open>\<open>dynamic_cast<const CompressionGraphExtractor*>(extractor)\<close>\<close>

fun dynamic_cast_compression ::
  "('n, 'e, 'm, 'i, 'r) Extractor option \<Rightarrow> ('m list \<times> 'i \<times> 'r) option" where
  "dynamic_cast_compression None = None"
| "dynamic_cast_compression (Some (GraphExtractor g v)) = None"
| "dynamic_cast_compression (Some (CompressionGraphExtractor g v i r)) = Some (v, i, r)"

section \<open>The marker builders\<close>

text \<open>
  The functions of \<open>visualizer_utilities.h\<close> and \<open>gvd_visualization_utilities.h\<close> that the
  visualizer calls. Their bodies are in other files, so they are parameters of the model:
  every theorem below holds for whatever they compute.
\<close>

record ('gc, 'cc, 'vc, 'n, 'e, 'm, 'i, 'r, 'l, 'p) Builders =
  makeEsdfMarker :: "'gc \<Rightarrow> 'cc \<Rightarrow> 'l \<Rightarrow> 'p Marker"
  makeGvdMarker :: "'gc \<Rightarrow> 'cc \<Rightarrow> 'l \<Rightarrow> 'p Marker"
  makeSurfaceVoxelMarker :: "'gc \<Rightarrow> 'cc \<Rightarrow> 'l \<Rightarrow> 'p Marker"
  makeErrorMarker :: "'gc \<Rightarrow> 'cc \<Rightarrow> 'l \<Rightarrow> 'l \<Rightarrow> real \<Rightarrow> 'p Marker"
  makeBlocksMarker :: "'l \<Rightarrow> real \<Rightarrow> 'p Marker"
  makeCentroidMarkers ::
    "Header \<Rightarrow> LayerConfig \<Rightarrow> ('n, 'e) SceneGraphLayer \<Rightarrow> 'vc \<Rightarrow> string \<Rightarrow> 'cc \<Rightarrow> 'p Marker"
  makeCentroidMarkersFn ::
    "Header \<Rightarrow> LayerConfig \<Rightarrow> ('n, 'e) SceneGraphLayer \<Rightarrow> 'vc \<Rightarrow> string \<Rightarrow>
     ('n \<Rightarrow> NodeColor) \<Rightarrow> 'p Marker"
  makeLayerEdgeMarkers ::
    "Header \<Rightarrow> LayerConfig \<Rightarrow> ('n, 'e) SceneGraphLayer \<Rightarrow> 'vc \<Rightarrow> NodeColor \<Rightarrow> string \<Rightarrow>
     'p Marker"
  makePlaceSpheres ::
    "Header \<Rightarrow> ('n, 'e) SceneGraphLayer \<Rightarrow> string \<Rightarrow> real \<Rightarrow> 'p Marker list"
  makeTextMarker :: "Header \<Rightarrow> LayerConfig \<Rightarrow> 'n \<Rightarrow> 'vc \<Rightarrow> string \<Rightarrow> 'p Marker"
  makeDeleteMarker :: "Header \<Rightarrow> nat \<Rightarrow> string \<Rightarrow> 'p Marker"
  makeGvdGraphMarkers :: "'m list \<Rightarrow> 'gc \<Rightarrow> 'cc \<Rightarrow> string \<Rightarrow> 'p Marker list"
  showGvdClusters :: "'m list \<Rightarrow> 'i \<Rightarrow> 'r \<Rightarrow> 'gc \<Rightarrow> 'cc \<Rightarrow> string \<Rightarrow> 'p Marker list"

section \<open>The visualizer's state\<close>

text \<open>
  The members that change between ticks, and the lines written with \<open>LOG(INFO)\<close>. The
  topics behind \<open>pubs_\<close> are the second component of a \<open>World\<close>: every message sent, oldest
  first, with the topic it went to.
\<close>

record Visualizer =
  previous_spheres :: nat
  previous_labels :: "int list"
  published_gvd_graph :: bool
  published_gvd_clusters :: bool
  log_info :: "string list"

type_synonym 'p Transport = "(string \<times> 'p Message) list"

type_synonym 'p World = "Visualizer \<times> 'p Transport"

text \<open>
  The constructor sets \<open>previous_spheres_(0)\<close> and \<open>published_gvd_graph_(false)\<close>;
  \<open>previous_labels_\<close> starts as the empty set. \<open>published_gvd_clusters_\<close> is not in the
  initializer list, so its first value is an argument.
\<close>

definition Visualizer_init :: "bool \<Rightarrow> Visualizer" where
  "Visualizer_init clusters =
     \<lparr>previous_spheres = 0, previous_labels = [], published_gvd_graph = False,
      published_gvd_clusters = clusters, log_info = []\<rparr>"

definition ReconstructionVisualizer :: "bool \<Rightarrow> 'p World" where
  "ReconstructionVisualizer clusters = (Visualizer_init clusters, [])"

definition LOG_INFO :: "string \<Rightarrow> Visualizer \<Rightarrow> Visualizer" where
  "LOG_INFO line v = v\<lparr>log_info := log_info v @ [line]\<rparr>"

section \<open>The publish gate\<close>

text \<open>
  Modelled from the spec: \<open>MarkerGroupPub::publish\<close> (\<open>pubs_->publish(name, callback)\<close>),
  whose body is in another file. The spec's PublishGate: the gate invokes the producer
  exactly once, synchronously, on a payload it builds in place, and forwards the built
  payload to the channel only if the producer returned true. A producer that throws sends
  nothing.
\<close>

definition publish_gate ::
  "('a \<Rightarrow> 'b) \<Rightarrow> 'a \<Rightarrow> string \<Rightarrow> ('a \<Rightarrow> 's \<Rightarrow> error + bool \<times> 'a \<times> 's) \<Rightarrow>
   's \<times> (string \<times> 'b) list \<Rightarrow> error + 's \<times> (string \<times> 'b) list" where
  "publish_gate wrap fresh name producer w =
     (case producer fresh (fst w) of
        Inl e \<Rightarrow> Inl e
      | Inr (worth_sending, payload, s) \<Rightarrow>
          Inr (s, if worth_sending then snd w @ [(name, wrap payload)] else snd w))"

text \<open>The two overloads: a callback on a \<open>Marker&\<close> and one on a \<open>MarkerArray&\<close>.\<close>

definition publish_marker ::
  "string \<Rightarrow> ('p Marker \<Rightarrow> 's \<Rightarrow> error + bool \<times> 'p Marker \<times> 's) \<Rightarrow>
   's \<times> 'p Transport \<Rightarrow> error + 's \<times> 'p Transport" where
  "publish_marker name producer w = publish_gate MarkerMsg Marker_default name producer w"

definition publish_array ::
  "string \<Rightarrow> ('p Marker list \<Rightarrow> 's \<Rightarrow> error + bool \<times> 'p Marker list \<times> 's) \<Rightarrow>
   's \<times> 'p Transport \<Rightarrow> error + 's \<times> 'p Transport" where
  "publish_array name producer w = publish_gate MarkerArrayMsg [] name producer w"

text \<open>
  A producer that also counts its own invocations, to say how often the gate calls it.
\<close>

definition counted ::
  "('a \<Rightarrow> 's \<Rightarrow> error + bool \<times> 'a \<times> 's) \<Rightarrow> 'a \<Rightarrow> nat \<times> 's \<Rightarrow> error + bool \<times> 'a \<times> nat \<times> 's" where
  "counted producer payload cs =
     (case producer payload (snd cs) of
        Inl e \<Rightarrow> Inl e
      | Inr (worth_sending, built, s) \<Rightarrow> Inr (worth_sending, built, Suc (fst cs), s))"

section \<open>\<open>ReconstructionVisualizer\<close>\<close>

text \<open>
  Each lambda handed to \<open>pubs_->publish\<close> is a function of its own (\<open>..._cb\<close>): it takes the
  message the gate hands it and the members it captures by reference, and returns its
  verdict, the message and the members.
\<close>

subsection \<open>\<open>visualizeGvd\<close>, \<open>visualizeBlocks\<close> and \<open>visualizeError\<close>\<close>

definition esdf_viz_cb ::
  "('gc, 'cc, 'vc, 'n, 'e, 'm, 'i, 'r, 'l, 'p) Builders \<Rightarrow> ('gc, 'cc, 'vc) ReconstructionVisualizerConfig \<Rightarrow>
   Header \<Rightarrow> 'l \<Rightarrow> 'p Marker \<Rightarrow> Visualizer \<Rightarrow> error + bool \<times> 'p Marker \<times> Visualizer" where
  "esdf_viz_cb B cfg header gvd msg0 v =
     (let msg = makeEsdfMarker B (config_gvd cfg) (config_colormap cfg) gvd;
          msg = msg\<lparr>marker_header := header\<rparr>;
          msg = msg\<lparr>marker_ns := ''gvd_visualizer''\<rparr>
      in if length (marker_points msg) \<noteq> 0 then Inr (True, msg, v)
         else Inr (False, msg, LOG_INFO ''visualizing empty ESDF slice'' v))"

definition gvd_viz_cb ::
  "('gc, 'cc, 'vc, 'n, 'e, 'm, 'i, 'r, 'l, 'p) Builders \<Rightarrow> ('gc, 'cc, 'vc) ReconstructionVisualizerConfig \<Rightarrow>
   Header \<Rightarrow> 'l \<Rightarrow> 'p Marker \<Rightarrow> Visualizer \<Rightarrow> error + bool \<times> 'p Marker \<times> Visualizer" where
  "gvd_viz_cb B cfg header gvd msg0 v =
     (let msg = makeGvdMarker B (config_gvd cfg) (config_colormap cfg) gvd;
          msg = msg\<lparr>marker_header := header\<rparr>;
          msg = msg\<lparr>marker_ns := ''gvd_visualizer''\<rparr>
      in if length (marker_points msg) \<noteq> 0 then Inr (True, msg, v)
         else Inr (False, msg, LOG_INFO ''visualizing empty GVD slice'' v))"

definition surface_viz_cb ::
  "('gc, 'cc, 'vc, 'n, 'e, 'm, 'i, 'r, 'l, 'p) Builders \<Rightarrow> ('gc, 'cc, 'vc) ReconstructionVisualizerConfig \<Rightarrow>
   Header \<Rightarrow> 'l \<Rightarrow> 'p Marker \<Rightarrow> Visualizer \<Rightarrow> error + bool \<times> 'p Marker \<times> Visualizer" where
  "surface_viz_cb B cfg header gvd msg0 v =
     (let msg = makeSurfaceVoxelMarker B (config_gvd cfg) (config_colormap cfg) gvd;
          msg = msg\<lparr>marker_header := header\<rparr>;
          msg = msg\<lparr>marker_ns := ''gvd_visualizer''\<rparr>
      in if length (marker_points msg) \<noteq> 0 then Inr (True, msg, v)
         else Inr (False, msg, LOG_INFO ''visualizing empty surface slice'' v))"

definition visualizeGvd ::
  "('gc, 'cc, 'vc, 'n, 'e, 'm, 'i, 'r, 'l, 'p) Builders \<Rightarrow> ('gc, 'cc, 'vc) ReconstructionVisualizerConfig \<Rightarrow>
   Header \<Rightarrow> 'l \<Rightarrow> 'p World \<Rightarrow> error + 'p World" where
  "visualizeGvd B cfg header gvd w =
     and_then (publish_marker ''esdf_viz'' (esdf_viz_cb B cfg header gvd) w) (\<lambda>w.
     and_then (publish_marker ''gvd_viz'' (gvd_viz_cb B cfg header gvd) w) (\<lambda>w.
     publish_marker ''surface_viz'' (surface_viz_cb B cfg header gvd) w))"

definition voxel_block_viz_cb ::
  "('gc, 'cc, 'vc, 'n, 'e, 'm, 'i, 'r, 'l, 'p) Builders \<Rightarrow> ('gc, 'cc, 'vc) ReconstructionVisualizerConfig \<Rightarrow>
   Header \<Rightarrow> 'l \<Rightarrow> 'p Marker \<Rightarrow> Visualizer \<Rightarrow> error + bool \<times> 'p Marker \<times> Visualizer" where
  "voxel_block_viz_cb B cfg header gvd msg0 v =
     (let msg = makeBlocksMarker B gvd (outline_scale cfg);
          msg = msg\<lparr>marker_header := header\<rparr>;
          msg = msg\<lparr>marker_ns := ''topology_server_blocks''\<rparr>
      in Inr (True, msg, v))"

definition visualizeBlocks ::
  "('gc, 'cc, 'vc, 'n, 'e, 'm, 'i, 'r, 'l, 'p) Builders \<Rightarrow> ('gc, 'cc, 'vc) ReconstructionVisualizerConfig \<Rightarrow>
   Header \<Rightarrow> 'l \<Rightarrow> 'p World \<Rightarrow> error + 'p World" where
  "visualizeBlocks B cfg header gvd w =
     publish_marker ''voxel_block_viz'' (voxel_block_viz_cb B cfg header gvd) w"

definition error_viz_cb ::
  "('gc, 'cc, 'vc, 'n, 'e, 'm, 'i, 'r, 'l, 'p) Builders \<Rightarrow> ('gc, 'cc, 'vc) ReconstructionVisualizerConfig \<Rightarrow>
   64 word \<Rightarrow> 'l \<Rightarrow> 'l \<Rightarrow> real \<Rightarrow> 'p Marker \<Rightarrow> Visualizer \<Rightarrow> error + bool \<times> 'p Marker \<times> Visualizer" where
  "error_viz_cb B cfg timestamp_ns lhs rhs threshold msg0 v =
     (let msg = makeErrorMarker B (config_gvd cfg) (config_colormap cfg) lhs rhs threshold;
          msg = msg\<lparr>marker_header := (marker_header msg)\<lparr>frame_id := world_frame cfg\<rparr>\<rparr>;
          msg = msg\<lparr>marker_header := (marker_header msg)\<lparr>stamp := timestamp_ns\<rparr>\<rparr>
      in if length (marker_points msg) \<noteq> 0 then Inr (True, msg, v)
         else Inr (False, msg, LOG_INFO ''no voxels with error above threshold'' v))"

definition visualizeError ::
  "('gc, 'cc, 'vc, 'n, 'e, 'm, 'i, 'r, 'l, 'p) Builders \<Rightarrow> ('gc, 'cc, 'vc) ReconstructionVisualizerConfig \<Rightarrow>
   64 word \<Rightarrow> 'l \<Rightarrow> 'l \<Rightarrow> real \<Rightarrow> 'p World \<Rightarrow> error + 'p World" where
  "visualizeError B cfg timestamp_ns lhs rhs threshold w =
     publish_marker ''error_viz'' (error_viz_cb B cfg timestamp_ns lhs rhs threshold) w"

subsection \<open>\<open>publishFreespace\<close>\<close>

definition freespace_graph_viz_cb ::
  "('gc, 'cc, 'vc, 'n, 'e, 'm, 'i, 'r, 'l, 'p) Builders \<Rightarrow> ('gc, 'cc, 'vc) ReconstructionVisualizerConfig \<Rightarrow>
   Header \<Rightarrow> ('n, 'e) SceneGraphLayer \<Rightarrow> 'p Marker list \<Rightarrow> Visualizer \<Rightarrow>
   error + bool \<times> 'p Marker list \<times> Visualizer" where
  "freespace_graph_viz_cb B cfg header graph markers v =
     (let node_ns = topology_marker_ns cfg @ ''_freespace_nodes'';
          freespace_conf = config_graph_layer cfg;
          freespace_conf = freespace_conf\<lparr>use_sphere_marker := False\<rparr>;
          freespace_conf = freespace_conf\<lparr>marker_scale := 0.08\<rparr>;
          freespace_conf = freespace_conf\<lparr>marker_alpha := 0.5\<rparr>;
          node_marker = makeCentroidMarkersFn B header freespace_conf graph (config_graph cfg)
                          node_ns (\<lambda>_. NodeColor_Zero);
          markers = markers @ [node_marker];
          markers =
            (if edges graph \<noteq> []
             then markers @ [makeLayerEdgeMarkers B header (config_graph_layer cfg) graph
                               (config_graph cfg) NodeColor_Zero
                               (topology_marker_ns cfg @ ''_freespace_edges'')]
             else markers)
      in Inr (True, markers, v))"

definition publishFreespace ::
  "('gc, 'cc, 'vc, 'n, 'e, 'm, 'i, 'r, 'l, 'p) Builders \<Rightarrow> ('gc, 'cc, 'vc) ReconstructionVisualizerConfig \<Rightarrow>
   Header \<Rightarrow> ('n, 'e) SceneGraphLayer \<Rightarrow> 'p World \<Rightarrow> error + 'p World" where
  "publishFreespace B cfg header graph w =
     (let label_ns = topology_marker_ns cfg @ ''_freespace'';
          spheres = makePlaceSpheres B header graph label_ns 0.15;
          delete_markers =
            map (\<lambda>id. Marker_default\<lparr>marker_action := DELETE, marker_id := int32_of_size_t id,
                                      marker_ns := label_ns\<rparr>)
              [0 ..< previous_spheres (fst w)];
          w = ((fst w)\<lparr>previous_spheres := length spheres\<rparr>, snd w)
      in and_then (publish_array ''freespace_viz'' (\<lambda>msg v. Inr (True, delete_markers, v)) w) (\<lambda>w.
         and_then (publish_array ''freespace_viz'' (\<lambda>msg v. Inr (True, spheres, v)) w) (\<lambda>w.
         publish_array ''freespace_graph_viz'' (freespace_graph_viz_cb B cfg header graph) w)))"

subsection \<open>\<open>publishGraphLabels\<close>\<close>

definition publishGraphLabels ::
  "('gc, 'cc, 'vc, 'n, 'e, 'm, 'i, 'r, 'l, 'p) Builders \<Rightarrow> ('gc, 'cc, 'vc) ReconstructionVisualizerConfig \<Rightarrow>
   Header \<Rightarrow> ('n, 'e) SceneGraphLayer \<Rightarrow> 'p World \<Rightarrow> error + 'p World" where
  "publishGraphLabels B cfg header graph w =
     (if \<not> use_label (config_graph_layer cfg) then Inr w
      else
        let label_ns = topology_marker_ns cfg @ ''_labels'';
            labels =
              map (\<lambda>id_node_pair.
                     makeTextMarker B header (config_graph_layer cfg) (snd id_node_pair)
                       (config_graph cfg) label_ns)
                (nodes graph);
            current_ids = fold (\<lambda>label s. set_insert (marker_id label) s) labels [];
            ids_to_delete =
              fold (\<lambda>previous s. if set_count current_ids previous = 0
                                  then set_insert previous s else s)
                (previous_labels (fst w)) [];
            w = ((fst w)\<lparr>previous_labels := current_ids\<rparr>, snd w);
            delete_markers =
              map (\<lambda>to_delete. Marker_default\<lparr>marker_action := DELETE, marker_id := to_delete,
                                              marker_ns := label_ns\<rparr>)
                ids_to_delete
        in and_then (publish_array ''graph_label_viz'' (\<lambda>msg v. Inr (True, delete_markers, v)) w)
             (\<lambda>w. publish_array ''graph_label_viz'' (\<lambda>msg v. Inr (True, labels, v)) w))"

subsection \<open>\<open>visualizeGraph\<close>\<close>

definition graph_viz_cb ::
  "('gc, 'cc, 'vc, 'n, 'e, 'm, 'i, 'r, 'l, 'p) Builders \<Rightarrow> ('gc, 'cc, 'vc) ReconstructionVisualizerConfig \<Rightarrow>
   Header \<Rightarrow> ('n, 'e) SceneGraphLayer \<Rightarrow> 'p Marker list \<Rightarrow> Visualizer \<Rightarrow>
   error + bool \<times> 'p Marker list \<times> Visualizer" where
  "graph_viz_cb B cfg header graph markers v =
     (let node_ns = topology_marker_ns cfg @ ''_nodes'';
          node_marker = makeCentroidMarkers B header (config_graph_layer cfg) graph
                          (config_graph cfg) node_ns (config_colormap cfg);
          markers = markers @ [node_marker];
          markers =
            (if edges graph \<noteq> []
             then markers @ [makeLayerEdgeMarkers B header (config_graph_layer cfg) graph
                               (config_graph cfg) NodeColor_Zero
                               (topology_marker_ns cfg @ ''_edges'')]
             else markers)
      in Inr (True, markers, v))"

definition visualizeGraph ::
  "('gc, 'cc, 'vc, 'n, 'e, 'm, 'i, 'r, 'l, 'p) Builders \<Rightarrow> ('gc, 'cc, 'vc) ReconstructionVisualizerConfig \<Rightarrow>
   Header \<Rightarrow> ('n, 'e) SceneGraphLayer \<Rightarrow> 'p World \<Rightarrow> error + 'p World" where
  "visualizeGraph B cfg header graph w =
     (if nodes graph = [] then Inr (LOG_INFO ''visualizing empty graph!'' (fst w), snd w)
      else
        and_then (publish_array ''graph_viz'' (graph_viz_cb B cfg header graph) w) (\<lambda>w.
        and_then (publishFreespace B cfg header graph w) (\<lambda>w.
        publishGraphLabels B cfg header graph w)))"

subsection \<open>\<open>visualizeGvdGraph\<close> and the cluster callback of \<open>visualize\<close>\<close>

definition gvd_graph_viz_cb ::
  "('gc, 'cc, 'vc, 'n, 'e, 'm, 'i, 'r, 'l, 'p) Builders \<Rightarrow> ('gc, 'cc, 'vc) ReconstructionVisualizerConfig \<Rightarrow>
   Header \<Rightarrow> 'm list \<Rightarrow> 'p Marker list \<Rightarrow> Visualizer \<Rightarrow>
   error + bool \<times> 'p Marker list \<times> Visualizer" where
  "gvd_graph_viz_cb B cfg header graph markers v =
     (let ns = topology_marker_ns cfg @ ''_gvd_graph'' in
      if graph = [] \<and> published_gvd_graph v then
        let v = v\<lparr>published_gvd_graph := False\<rparr>;
            markers = markers @ [makeDeleteMarker B header 0 (ns @ ''_nodes'')];
            markers = markers @ [makeDeleteMarker B header 0 (ns @ ''_edges'')]
        in Inr (True, markers, v)
      else
        let markers = makeGvdGraphMarkers B graph (config_gvd cfg) (config_colormap cfg) ns in
        if markers = [] then Inr (False, markers, v)
        else
          and_then (assign_header_at markers 0 header) (\<lambda>markers.
          and_then (assign_header_at markers 1 header) (\<lambda>markers.
          Inr (True, markers, v\<lparr>published_gvd_graph := True\<rparr>))))"

definition visualizeGvdGraph ::
  "('gc, 'cc, 'vc, 'n, 'e, 'm, 'i, 'r, 'l, 'p) Builders \<Rightarrow> ('gc, 'cc, 'vc) ReconstructionVisualizerConfig \<Rightarrow>
   Header \<Rightarrow> 'm list \<Rightarrow> 'p World \<Rightarrow> error + 'p World" where
  "visualizeGvdGraph B cfg header graph w =
     publish_array ''gvd_graph_viz'' (gvd_graph_viz_cb B cfg header graph) w"

definition gvd_cluster_viz_cb ::
  "('gc, 'cc, 'vc, 'n, 'e, 'm, 'i, 'r, 'l, 'p) Builders \<Rightarrow> ('gc, 'cc, 'vc) ReconstructionVisualizerConfig \<Rightarrow>
   Header \<Rightarrow> 'm list \<times> 'i \<times> 'r \<Rightarrow> 'p Marker list \<Rightarrow> Visualizer \<Rightarrow>
   error + bool \<times> 'p Marker list \<times> Visualizer" where
  "gvd_cluster_viz_cb B cfg header compression markers v =
     (let ns = ''gvd_cluster_graph'' in
      if fst compression = [] \<and> published_gvd_clusters v then
        let v = v\<lparr>published_gvd_graph := False\<rparr>;
            markers = markers @ [makeDeleteMarker B header 0 (ns @ ''_nodes'')];
            markers = markers @ [makeDeleteMarker B header 0 (ns @ ''_edges'')]
        in Inr (True, markers, v)
      else
        let markers = showGvdClusters B (fst compression) (fst (snd compression))
                        (snd (snd compression)) (config_gvd cfg) (config_colormap cfg) ns in
        if markers = [] then Inr (False, markers, v)
        else
          and_then (assign_header_at markers 0 header) (\<lambda>markers.
          and_then (assign_header_at markers 1 header) (\<lambda>markers.
          Inr (True, markers, v\<lparr>published_gvd_clusters := True\<rparr>))))"

subsection \<open>\<open>visualize\<close>\<close>

text \<open>
  The \<open>ScopedTimer\<close> only measures time, and the local \<open>MarkerArray markers\<close> declared
  before the cluster callback is never used (the callback's parameter shadows it); neither
  is modelled.
\<close>

definition visualize ::
  "('gc, 'cc, 'vc, 'n, 'e, 'm, 'i, 'r, 'l, 'p) Builders \<Rightarrow> ('gc, 'cc, 'vc) ReconstructionVisualizerConfig \<Rightarrow>
   64 word \<Rightarrow> 'l \<Rightarrow> ('n, 'e, 'm, 'i, 'r) Extractor option \<Rightarrow> 'p World \<Rightarrow> error + 'p World" where
  "visualize B cfg timestamp_ns gvd extractor w =
     (let header = Header_default;
          header = header\<lparr>frame_id := world_frame cfg\<rparr>;
          header = header\<lparr>stamp := timestamp_ns\<rparr>
      in
      and_then (visualizeGvd B cfg header gvd w) (\<lambda>w.
      and_then
        (case extractor of
           None \<Rightarrow> Inr w
         | Some ex \<Rightarrow>
             and_then (visualizeGraph B cfg header (getGraph ex) w) (\<lambda>w.
             visualizeGvdGraph B cfg header (getGvdGraph ex) w)) (\<lambda>w.
      and_then (if show_block_outlines cfg then visualizeBlocks B cfg header gvd w else Inr w) (\<lambda>w.
      case dynamic_cast_compression extractor of
        None \<Rightarrow> Inr w
      | Some compression \<Rightarrow>
          publish_array ''gvd_cluster_viz'' (gvd_cluster_viz_cb B cfg header compression) w))))"

section \<open>Observing a run\<close>

text \<open>The messages a step added to the transport.\<close>

definition new_sends :: "'a list \<Rightarrow> 'a list \<Rightarrow> 'a list" where
  "new_sends before after = drop (length before) after"

definition sends_on :: "string \<Rightarrow> 'p Transport \<Rightarrow> 'p Message list" where
  "sends_on name sends = map snd (filter (\<lambda>m. fst m = name) sends)"

text \<open>
  A step that returns normally, only adds messages, all of them on the listed topics, only
  adds log lines, and leaves \<open>published_gvd_clusters_\<close> as it was.
\<close>

definition completes_on :: "string list \<Rightarrow> 'p World \<Rightarrow> error + 'p World \<Rightarrow> bool" where
  "completes_on topics w r =
     (case r of
        Inl e \<Rightarrow> False
      | Inr w' \<Rightarrow>
          prefix (snd w) (snd w')
          \<and> list_all (\<lambda>m. fst m \<in> set topics) (new_sends (snd w) (snd w'))
          \<and> prefix (log_info (fst w)) (log_info (fst w'))
          \<and> published_gvd_clusters (fst w') = published_gvd_clusters (fst w))"

text \<open>Every topic of the visualizer but the cluster topic.\<close>

definition other_topics :: "string list" where
  "other_topics =
     [''esdf_viz'', ''gvd_viz'', ''surface_viz'', ''voxel_block_viz'', ''graph_viz'',
      ''freespace_viz'', ''freespace_graph_viz'', ''graph_label_viz'', ''gvd_graph_viz'']"

text \<open>The ids a message retracts: those of its markers whose action is \<open>DELETE\<close>.\<close>

fun deleted_ids :: "'p Message \<Rightarrow> int list" where
  "deleted_ids (MarkerMsg m) = (if marker_action m = DELETE then [marker_id m] else [])"
| "deleted_ids (MarkerArrayMsg ms) = map marker_id (filter (\<lambda>m. marker_action m = DELETE) ms)"

fun headers_of :: "'p Message \<Rightarrow> Header list" where
  "headers_of (MarkerMsg m) = [marker_header m]"
| "headers_of (MarkerArrayMsg ms) = map marker_header ms"

text \<open>
  The id set \<open>current_ids\<close> that \<open>publishGraphLabels\<close> builds from a graph: the ids of
  the text markers of its nodes.
\<close>

definition current_label_ids ::
  "('gc, 'cc, 'vc, 'n, 'e, 'm, 'i, 'r, 'l, 'p) Builders \<Rightarrow> ('gc, 'cc, 'vc) ReconstructionVisualizerConfig \<Rightarrow>
   Header \<Rightarrow> ('n, 'e) SceneGraphLayer \<Rightarrow> int set" where
  "current_label_ids B cfg header graph =
     set (map (\<lambda>id_node_pair.
                 marker_id (makeTextMarker B header (config_graph_layer cfg) (snd id_node_pair)
                              (config_graph cfg) (topology_marker_ns cfg @ ''_labels'')))
            (nodes graph))"

text \<open>
  A sequence of calls of \<open>publishGraphLabels\<close>, each with the configuration, header and
  graph of its tick. Per call: the ids retracted by the first message it sent (the delete
  batch) and the set remembered in \<open>previous_labels_\<close> afterwards.
\<close>

fun label_ticks ::
  "('gc, 'cc, 'vc, 'n, 'e, 'm, 'i, 'r, 'l, 'p) Builders \<Rightarrow>
   (('gc, 'cc, 'vc) ReconstructionVisualizerConfig \<times> Header \<times> ('n, 'e) SceneGraphLayer) list \<Rightarrow>
   'p World \<Rightarrow> (int set \<times> int set) list" where
  "label_ticks B [] w = []"
| "label_ticks B (tick # ticks) w =
     (case publishGraphLabels B (fst tick) (fst (snd tick)) (snd (snd tick)) w of
        Inl e \<Rightarrow> []
      | Inr w' \<Rightarrow>
          (case new_sends (snd w) (snd w') of
             [] \<Rightarrow> ({}, set (previous_labels (fst w')))
           | first # rest \<Rightarrow> (set (deleted_ids (snd first)), set (previous_labels (fst w'))))
          # label_ticks B ticks w')"

text \<open>
  The spec's ElementSetDiffer, in its words: \<open>to_delete = prior_ids - current_ids\<close>, then
  \<open>prior_ids = current_ids\<close>; over a sequence \<open>S1, ..., Sn\<close> it gives, per step, the
  deletions and the set remembered afterwards.
\<close>

fun reconcile_all :: "int set \<Rightarrow> int set list \<Rightarrow> (int set \<times> int set) list" where
  "reconcile_all prior_ids [] = []"
| "reconcile_all prior_ids (current_ids # rest) =
     (prior_ids - current_ids, current_ids) # reconcile_all current_ids rest"

section \<open>The channel registry\<close>

text \<open>
  Modelled from the spec: \<open>SemanticRosPublishers\<close> (the \<open>ObjectCloudPub\<close> of
  \<open>ObjectVisualizer\<close>), declared in \<open>semantic_ros_publishers.h\<close>, which is not among these
  files. The spec's ChannelRegistry: the first call of \<open>get_or_create\<close> for a key
  constructs and caches a new output channel, its name derived from the key; later calls
  return the cached channel; nothing is ever evicted. A channel instance is told apart by
  the number of channels constructed before it.
\<close>

record Channel =
  channel_instance :: nat
  channel_name :: string

record 'k ChannelRegistry =
  channels :: "('k \<times> Channel) list"
  constructed :: nat

definition ChannelRegistry_empty :: "'k ChannelRegistry" where
  "ChannelRegistry_empty = \<lparr>channels = [], constructed = 0\<rparr>"

text \<open>
  Modelled from the spec: \<open>get_or_create\<close> of the ChannelRegistry (section 4.1), the body of
  \<open>SemanticRosPublishers\<close> not being among these files. The first call for a key constructs
  a channel named from the key and caches it; a later call returns the cached channel.
\<close>

definition get_or_create ::
  "('k \<Rightarrow> string) \<Rightarrow> 'k \<Rightarrow> 'k ChannelRegistry \<Rightarrow> Channel \<times> 'k ChannelRegistry" where
  "get_or_create name_of key reg =
     (case map_of (channels reg) key of
        Some channel \<Rightarrow> (channel, reg)
      | None \<Rightarrow>
          (let channel = \<lparr>channel_instance = constructed reg, channel_name = name_of key\<rparr>
           in (channel, reg\<lparr>channels := (key, channel) # channels reg,
                            constructed := Suc (constructed reg)\<rparr>)))"

text \<open>A series of lookups, and the registry they leave when started from the empty one.\<close>

definition lookups ::
  "('k \<Rightarrow> string) \<Rightarrow> 'k list \<Rightarrow> 'k ChannelRegistry \<Rightarrow> 'k ChannelRegistry" where
  "lookups name_of keys reg = fold (\<lambda>key reg. snd (get_or_create name_of key reg)) keys reg"

definition registry_after :: "('k \<Rightarrow> string) \<Rightarrow> 'k list \<Rightarrow> 'k ChannelRegistry" where
  "registry_after name_of keys = lookups name_of keys ChannelRegistry_empty"

section \<open>Example inputs\<close>

text \<open>
  Builders to run the visualizer on: a node is its id, a voxel layer is the list of points
  its slice markers carry, place spheres are numbered from 0, and the GVD graph builders
  give a node marker and an edge marker for a graph that is not empty.
\<close>

definition example_builders ::
  "(unit, unit, unit, nat, unit, nat, unit, unit, nat list, nat) Builders" where
  "example_builders =
     \<lparr>makeEsdfMarker = (\<lambda>gc cc l. Marker_default\<lparr>marker_points := l\<rparr>),
      makeGvdMarker = (\<lambda>gc cc l. Marker_default\<lparr>marker_points := l\<rparr>),
      makeSurfaceVoxelMarker = (\<lambda>gc cc l. Marker_default\<lparr>marker_points := l\<rparr>),
      makeErrorMarker = (\<lambda>gc cc l1 l2 t. Marker_default\<lparr>marker_points := l1 @ l2\<rparr>),
      makeBlocksMarker = (\<lambda>l s. Marker_default\<lparr>marker_points := l\<rparr>),
      makeCentroidMarkers =
        (\<lambda>h lc g vc ns cc. Marker_default\<lparr>marker_header := h, marker_ns := ns\<rparr>),
      makeCentroidMarkersFn =
        (\<lambda>h lc g vc ns f. Marker_default\<lparr>marker_header := h, marker_ns := ns\<rparr>),
      makeLayerEdgeMarkers =
        (\<lambda>h lc g vc c ns. Marker_default\<lparr>marker_header := h, marker_ns := ns\<rparr>),
      makePlaceSpheres =
        (\<lambda>h g ns a. map (\<lambda>i. Marker_default\<lparr>marker_header := h, marker_ns := ns,
                                              marker_id := int i\<rparr>)
                       [0 ..< length (nodes g)]),
      makeTextMarker =
        (\<lambda>h lc n vc ns. Marker_default\<lparr>marker_header := h, marker_ns := ns,
                                        marker_id := int n\<rparr>),
      makeDeleteMarker =
        (\<lambda>h i ns. Marker_default\<lparr>marker_header := h, marker_ns := ns,
                                   marker_id := int32_of_size_t i, marker_action := DELETE\<rparr>),
      makeGvdGraphMarkers =
        (\<lambda>g gc cc ns. if g = [] then []
                       else [Marker_default\<lparr>marker_ns := ns @ ''_nodes''\<rparr>,
                             Marker_default\<lparr>marker_ns := ns @ ''_edges''\<rparr>]),
      showGvdClusters =
        (\<lambda>g i r gc cc ns. if g = [] then []
                           else [Marker_default\<lparr>marker_ns := ns @ ''_nodes''\<rparr>,
                                 Marker_default\<lparr>marker_ns := ns @ ''_edges''\<rparr>])\<rparr>"

definition example_config :: "(unit, unit, unit) ReconstructionVisualizerConfig" where
  "example_config =
     \<lparr>world_frame = ''world'', topology_marker_ns = ''topology'',
      show_block_outlines = False, use_gvd_block_outlines = False, outline_scale = 1,
      config_gvd = (), config_colormap = (), config_graph = (),
      config_graph_layer =
        \<lparr>use_label = True, use_sphere_marker = True, marker_scale = 1, marker_alpha = 1\<rparr>\<rparr>"

text \<open>A scene graph layer with the given node ids and no edges.\<close>

definition example_graph :: "nat list \<Rightarrow> (nat, unit) SceneGraphLayer" where
  "example_graph ids = \<lparr>nodes = map (\<lambda>i. (i, i)) ids, edges = []\<rparr>"

section \<open>Facts about the ordered set and the gate\<close>

lemma set_set_insert: "set (set_insert x s) = insert x (set s)"
  by (simp add: set_insert_def set_insort_key insert_absorb)

lemma set_fold_set_insert:
  "set (fold (\<lambda>label s. set_insert (f label) s) xs acc) = f ` set xs \<union> set acc"
  by (induction xs arbitrary: acc) (auto simp: set_set_insert)

lemma set_fold_ids_to_delete:
  "set (fold (\<lambda>previous s. if set_count cur previous = 0 then set_insert previous s else s)
          prev acc)
   = (set prev - set cur) \<union> set acc"
  by (induction prev arbitrary: acc) (auto simp: set_set_insert set_count_def)

lemma publish_array_always:
  "publish_array name (\<lambda>msg v. Inr (True, payload, v)) w =
     Inr (fst w, snd w @ [(name, MarkerArrayMsg payload)])"
  by (simp add: publish_array_def publish_gate_def)

lemma new_sends_append [simp]: "new_sends xs (xs @ ys) = ys"
  by (simp add: new_sends_def)

lemma new_sends_same [simp]: "new_sends xs xs = []"
  by (simp add: new_sends_def)

text \<open>The definitions to unfold when the visualizer is run on the example inputs.\<close>

lemmas gate_defs = publish_gate_def publish_marker_def publish_array_def and_then_def

lemmas visualizer_defs =
  visualize_def visualizeGvd_def esdf_viz_cb_def gvd_viz_cb_def surface_viz_cb_def
  visualizeBlocks_def voxel_block_viz_cb_def visualizeGraph_def graph_viz_cb_def
  publishFreespace_def freespace_graph_viz_cb_def publishGraphLabels_def
  visualizeGvdGraph_def gvd_graph_viz_cb_def gvd_cluster_viz_cb_def assign_header_at_def
  LOG_INFO_def set_insert_def set_count_def Let_def

lemmas example_defs =
  example_builders_def example_config_def example_graph_def ReconstructionVisualizer_def
  Visualizer_init_def Marker_default_def Header_default_def int32_of_size_t_def

section \<open>Graph labels: the id-set differ\<close>

lemma publishGraphLabels_enabled:
  assumes "use_label (config_graph_layer cfg)"
    and "labels =
           map (\<lambda>id_node_pair.
                  makeTextMarker B header (config_graph_layer cfg) (snd id_node_pair)
                    (config_graph cfg) (topology_marker_ns cfg @ ''_labels''))
             (nodes graph)"
    and "ids = fold (\<lambda>label s. set_insert (marker_id label) s) labels []"
  shows "publishGraphLabels B cfg header graph w =
           Inr ((fst w)\<lparr>previous_labels := ids\<rparr>,
                snd w @
                [(''graph_label_viz'',
                  MarkerArrayMsg
                    (map (\<lambda>to_delete. Marker_default\<lparr>marker_action := DELETE,
                                                      marker_id := to_delete,
                                                      marker_ns := topology_marker_ns cfg @ ''_labels''\<rparr>)
                       (fold (\<lambda>previous s. if set_count ids previous = 0
                                           then set_insert previous s else s)
                          (previous_labels (fst w)) []))),
                 (''graph_label_viz'', MarkerArrayMsg labels)])"
  using assms
  by (simp add: publishGraphLabels_def Let_def publish_array_always and_then_def)

lemma set_current_ids:
  "set (fold (\<lambda>label s. set_insert (marker_id label) s)
          (map (\<lambda>id_node_pair.
                  makeTextMarker B header (config_graph_layer cfg) (snd id_node_pair)
                    (config_graph cfg) (topology_marker_ns cfg @ ''_labels''))
             (nodes graph)) [])
   = current_label_ids B cfg header graph"
  by (simp add: current_label_ids_def set_fold_set_insert image_image)

lemma label_ticks_reconcile:
  "list_all (\<lambda>tick. use_label (config_graph_layer (fst tick))) ticks \<Longrightarrow>
   label_ticks B ticks w =
     reconcile_all (set (previous_labels (fst w)))
       (map (\<lambda>tick. current_label_ids B (fst tick) (fst (snd tick)) (snd (snd tick))) ticks)"
proof (induction ticks arbitrary: w)
  case Nil
  then show ?case by simp
next
  case (Cons tick ticks)
  from Cons.prems have en: "use_label (config_graph_layer (fst tick))"
    and rest: "list_all (\<lambda>tick. use_label (config_graph_layer (fst tick))) ticks"
    by simp_all
  note step =
    publishGraphLabels_enabled [OF en refl refl, of B "fst (snd tick)" "snd (snd tick)" w]
  show ?case
    by (simp add: step new_sends_def Cons.IH [OF rest] set_current_ids comp_def
        set_fold_ids_to_delete)
qed

text \<open>
  C1. Take any sequence of calls of \<open>publishGraphLabels\<close> with labels enabled, on a freshly
  constructed visualizer, and let \<open>S1, ..., Sn\<close> be the id sets of their graphs' labels. The
  delete batch of call \<open>i\<close> retracts exactly the ids of \<open>S(i-1) - S(i)\<close>, with \<open>S0\<close> empty, and
  \<open>previous_labels_\<close> holds \<open>S(i)\<close> afterwards: the run is the spec's differ on
  \<open>S1, ..., Sn\<close>. In particular the first call retracts nothing.
\<close>

theorem publishGraphLabels_reconciles:
  assumes "list_all (\<lambda>tick. use_label (config_graph_layer (fst tick))) ticks"
  shows "label_ticks B ticks (ReconstructionVisualizer clusters) =
           reconcile_all {}
             (map (\<lambda>tick. current_label_ids B (fst tick) (fst (snd tick)) (snd (snd tick)))
                ticks)
         \<and> (case label_ticks B ticks (ReconstructionVisualizer clusters) of
               [] \<Rightarrow> True
             | first # rest \<Rightarrow> fst first = {})"
proof -
  have run: "label_ticks B ticks (ReconstructionVisualizer clusters) =
           reconcile_all {}
             (map (\<lambda>tick. current_label_ids B (fst tick) (fst (snd tick)) (snd (snd tick)))
                ticks)"
    using label_ticks_reconcile [OF assms, of B "ReconstructionVisualizer clusters"]
    by (simp add: ReconstructionVisualizer_def Visualizer_init_def)
  have "(case label_ticks B ticks (ReconstructionVisualizer clusters) of
           [] \<Rightarrow> True
         | first # rest \<Rightarrow> fst first = {})"
    unfolding run by (cases ticks) simp_all
  with run show ?thesis by blast
qed

theorem publishGraphLabels_reconciles_witness:
  "list_all (\<lambda>tick. use_label (config_graph_layer (fst tick)))
     [(example_config, Header_default, example_graph [1, 2, 3]),
      (example_config, Header_default, example_graph [2, 3]),
      (example_config, Header_default, example_graph [])]
   \<and> label_ticks example_builders
       [(example_config, Header_default, example_graph [1, 2, 3]),
        (example_config, Header_default, example_graph [2, 3]),
        (example_config, Header_default, example_graph [])]
       (ReconstructionVisualizer False)
     = [({}, {1, 2, 3}), ({1}, {2, 3}), ({2, 3}, {})]"
proof -
  have en: "list_all (\<lambda>tick. use_label (config_graph_layer (fst tick)))
     [(example_config, Header_default, example_graph [1, 2, 3]),
      (example_config, Header_default, example_graph [2, 3]),
      (example_config, Header_default, example_graph [])]"
    by (simp add: example_config_def)
  have expected: "reconcile_all {}
      (map (\<lambda>tick. current_label_ids example_builders (fst tick) (fst (snd tick)) (snd (snd tick)))
         [(example_config, Header_default, example_graph [1, 2, 3]),
          (example_config, Header_default, example_graph [2, 3]),
          (example_config, Header_default, example_graph [])])
     = [({}, {1, 2, 3}), ({1}, {2, 3}), ({2, 3}, {})]"
    by (auto simp add: current_label_ids_def example_builders_def example_graph_def)
  from publishGraphLabels_reconciles [OF en, of example_builders False]
  show ?thesis
    unfolding expected using en by blast
qed

section \<open>Freespace spheres: the positional differ\<close>

lemma int32_of_size_t_small: "n < 2 ^ 31 \<Longrightarrow> int32_of_size_t n = int n"
  unfolding int32_of_size_t_def
  by (simp add: signed_of_nat signed_take_bit_int_eq_self)

lemma publishFreespace_result:
  assumes "label_ns = topology_marker_ns cfg @ ''_freespace''"
    and "spheres = makePlaceSpheres B header graph label_ns 0.15"
  shows "\<exists>graph_markers.
     publishFreespace B cfg header graph w =
       Inr ((fst w)\<lparr>previous_spheres := length spheres\<rparr>,
            snd w @
            [(''freespace_viz'',
              MarkerArrayMsg
                (map (\<lambda>id. Marker_default\<lparr>marker_action := DELETE, marker_id := int32_of_size_t id,
                                          marker_ns := label_ns\<rparr>)
                   [0 ..< previous_spheres (fst w)])),
             (''freespace_viz'', MarkerArrayMsg spheres),
             (''freespace_graph_viz'', MarkerArrayMsg graph_markers)])"
  using assms
  by (simp add: publishFreespace_def Let_def publish_array_always and_then_def
      publish_array_def publish_gate_def freespace_graph_viz_cb_def)

text \<open>
  C2, as stated, fails. After a tick with five spheres, a tick with two spheres sends a
  delete batch with the ids 0 to 4, not only 2 to 4: the loop of \<open>publishFreespace\<close> runs
  from 0 to \<open>previous_spheres_\<close> whatever the new count is.
\<close>

theorem publishFreespace_not_minimal: "\<exists>w'. and_then (publishFreespace example_builders example_config Header_default
                       (example_graph [1, 2, 3, 4, 5]) (ReconstructionVisualizer False))
              (publishFreespace example_builders example_config Header_default
                       (example_graph [7, 8])) = Inr w'
        \<and> previous_spheres (fst w') = 2
        \<and> map deleted_ids (sends_on ''freespace_viz'' (snd w')) = [[], [], [0, 1, 2, 3, 4], []]
        \<and> [0, 1, 2, 3, 4] \<noteq> map int [2 ..< 5]"
  by (simp add: publishFreespace_def Let_def publish_array_always and_then_def
      publish_array_def publish_gate_def freespace_graph_viz_cb_def example_builders_def example_config_def example_graph_def ReconstructionVisualizer_def Visualizer_init_def Marker_default_def int32_of_size_t_def sends_on_def)

text \<open>
  C2, amended. Every call of \<open>publishFreespace\<close> first sends a delete batch with one
  \<open>DELETE\<close> marker for each id from 0 up to the remembered count (each narrowed to 32 bits),
  whatever the current count is, then sends the current spheres, and remembers the current
  count. With a remembered count of 0 the batch is empty.
\<close>

theorem publishFreespace_deletes_all_prior:
  "\<exists>w'. publishFreespace B cfg header graph w = Inr w'
     \<and> previous_spheres (fst w') =
         length (makePlaceSpheres B header graph (topology_marker_ns cfg @ ''_freespace'') 0.15)
     \<and> take 2 (new_sends (snd w) (snd w')) =
         [(''freespace_viz'',
           MarkerArrayMsg
             (map (\<lambda>id. Marker_default\<lparr>marker_action := DELETE, marker_id := int32_of_size_t id,
                                       marker_ns := topology_marker_ns cfg @ ''_freespace''\<rparr>)
                [0 ..< previous_spheres (fst w)])),
          (''freespace_viz'',
           MarkerArrayMsg
             (makePlaceSpheres B header graph (topology_marker_ns cfg @ ''_freespace'') 0.15))]
     \<and> (previous_spheres (fst w) \<le> 2 ^ 31 \<longrightarrow>
          map deleted_ids (take 1 (sends_on ''freespace_viz'' (new_sends (snd w) (snd w')))) =
            [map int [0 ..< previous_spheres (fst w)]])"
proof -
  from publishFreespace_result [OF refl refl, of B cfg header graph w]
  obtain graph_markers where
    r: "publishFreespace B cfg header graph w =
       Inr ((fst w)\<lparr>previous_spheres := length (makePlaceSpheres B header graph (topology_marker_ns cfg @ ''_freespace'') 0.15)\<rparr>,
            snd w @
            [(''freespace_viz'',
              MarkerArrayMsg
                (map (\<lambda>id. Marker_default\<lparr>marker_action := DELETE, marker_id := int32_of_size_t id,
                                          marker_ns := topology_marker_ns cfg @ ''_freespace''\<rparr>)
                   [0 ..< previous_spheres (fst w)])),
             (''freespace_viz'', MarkerArrayMsg (makePlaceSpheres B header graph (topology_marker_ns cfg @ ''_freespace'') 0.15)),
             (''freespace_graph_viz'', MarkerArrayMsg graph_markers)])"
    by blast
  have ids: "previous_spheres (fst w) \<le> 2 ^ 31 \<Longrightarrow>
     map (\<lambda>id. int32_of_size_t id) [0 ..< previous_spheres (fst w)] = map int [0 ..< previous_spheres (fst w)]"
    by (rule map_cong) (auto simp: int32_of_size_t_small)
  show ?thesis
    unfolding r
    by (simp add: new_sends_def sends_on_def Marker_default_def comp_def ids)
qed

theorem publishFreespace_deletes_all_prior_witness:
  "previous_spheres (fst ((Visualizer_init False)\<lparr>previous_spheres := 5\<rparr>, [])) \<le> 2 ^ 31
   \<and> (\<exists>w'. publishFreespace example_builders example_config Header_default (example_graph [7, 8])
              ((Visualizer_init False)\<lparr>previous_spheres := 5\<rparr>, []) = Inr w'
          \<and> previous_spheres (fst w') = 2
          \<and> map deleted_ids (take 1 (sends_on ''freespace_viz'' (new_sends [] (snd w')))) =
               [[0, 1, 2, 3, 4]])"
proof -
  let ?w = "((Visualizer_init False)\<lparr>previous_spheres := 5\<rparr>, [] :: nat Transport)"
  have small: "previous_spheres (fst ?w) \<le> 2 ^ 31"
    by (simp add: Visualizer_init_def)
  have two: "length (makePlaceSpheres example_builders Header_default (example_graph [7, 8])
                (topology_marker_ns example_config @ ''_freespace'') 0.15) = 2"
    by (simp add: example_builders_def example_graph_def)
  have prior: "map int [0 ..< previous_spheres (fst ?w)] = [0, 1, 2, 3, 4]"
    by (simp add: upt_rec Visualizer_init_def)
  from publishFreespace_deletes_all_prior
         [of example_builders example_config Header_default "example_graph [7, 8]" ?w]
  show ?thesis
  proof (elim exE conjE)
    fix w'
    assume run: "publishFreespace example_builders example_config Header_default
                   (example_graph [7, 8]) ?w = Inr w'"
      and count: "previous_spheres (fst w') =
         length (makePlaceSpheres example_builders Header_default (example_graph [7, 8])
                   (topology_marker_ns example_config @ ''_freespace'') 0.15)"
      and ids: "previous_spheres (fst ?w) \<le> 2 ^ 31 \<longrightarrow>
          map deleted_ids (take 1 (sends_on ''freespace_viz'' (new_sends (snd ?w) (snd w')))) =
            [map int [0 ..< previous_spheres (fst ?w)]]"
    from ids small
    have "map deleted_ids (take 1 (sends_on ''freespace_viz'' (new_sends (snd ?w) (snd w')))) =
            [map int [0 ..< previous_spheres (fst ?w)]]"
      by (rule mp)
    then have "map deleted_ids (take 1 (sends_on ''freespace_viz'' (new_sends [] (snd w')))) =
               [[0, 1, 2, 3, 4]]"
      unfolding prior by simp
    with run count two small show ?thesis
      by simp
  qed
qed

section \<open>The publish gate\<close>

text \<open>
  C5. A call of the gate invokes the producer exactly once (a producer that counts its
  invocations ends one higher) and sends the built payload exactly once when the
  producer returned true and not at all when it returned false. So \<open>visualizeError\<close>, one
  call of the gate, sends one marker when the error marker has points and nothing
  otherwise.
\<close>

theorem publish_gate_once:
  "(producer fresh s = Inr (worth_sending, payload, s') \<longrightarrow>
      (\<exists>sent'.
         publish_gate wrap fresh name (counted producer) ((calls, s), sent) =
           Inr ((Suc calls, s'), sent')
         \<and> new_sends sent sent' = (if worth_sending then [(name, wrap payload)] else [])
         \<and> length sent' = length sent + (if worth_sending then 1 else 0)))
   \<and> (\<exists>w'. visualizeError B cfg timestamp_ns lhs rhs threshold w = Inr w'
         \<and> map fst (new_sends (snd w) (snd w')) =
             (if marker_points (makeErrorMarker B (config_gvd cfg) (config_colormap cfg)
                                  lhs rhs threshold) = []
              then [] else [''error_viz'']))"
proof (intro conjI impI)
  assume "producer fresh s = Inr (worth_sending, payload, s')"
  then show "\<exists>sent'.
         publish_gate wrap fresh name (counted producer) ((calls, s), sent) =
           Inr ((Suc calls, s'), sent')
         \<and> new_sends sent sent' = (if worth_sending then [(name, wrap payload)] else [])
         \<and> length sent' = length sent + (if worth_sending then 1 else 0)"
    by (simp add: publish_gate_def counted_def)
next
  show "\<exists>w'. visualizeError B cfg timestamp_ns lhs rhs threshold w = Inr w'
         \<and> map fst (new_sends (snd w) (snd w')) =
             (if marker_points (makeErrorMarker B (config_gvd cfg) (config_colormap cfg)
                                  lhs rhs threshold) = []
              then [] else [''error_viz''])"
    by (simp add: visualizeError_def error_viz_cb_def Let_def gate_defs)
qed

theorem publish_gate_once_witness:
  "(\<lambda>msg s. Inr (msg \<noteq> [], msg, s) :: error + bool \<times> nat list \<times> unit) [1] ()
     = Inr (True, [1], ())
   \<and> (\<exists>sent'. publish_gate id [1] ''error_viz''
                 (counted (\<lambda>msg s. Inr (msg \<noteq> [], msg, s))) ((0, ()), [])
                 = Inr ((Suc 0, ()), sent')
              \<and> sent' = [(''error_viz'', [1::nat])])"
proof -
  have run: "(\<lambda>msg s. Inr (msg \<noteq> [], msg, s) :: error + bool \<times> nat list \<times> unit) [1] ()
               = Inr (True, [1], ())"
    by simp
  note gate = publish_gate_once
    [where producer = "\<lambda>msg s. Inr (msg \<noteq> [], msg, s) :: error + bool \<times> nat list \<times> unit"
       and fresh = "[1]" and s = "()" and worth_sending = True and payload = "[1]"
       and s' = "()" and wrap = id and name = "''error_viz''" and calls = 0 and sent = "[]"
       and B = example_builders and cfg = example_config and timestamp_ns = 7
       and lhs = "[]" and rhs = "[]" and threshold = 1
       and w = "ReconstructionVisualizer False",
     THEN conjunct1, THEN mp, OF run]
  from gate show ?thesis
    using run by (auto simp: new_sends_def)
qed

section \<open>The channel registry\<close>

lemma get_or_create_cached:
  "map_of (channels (snd (get_or_create name_of k reg))) k = Some (fst (get_or_create name_of k reg))"
  by (simp add: get_or_create_def Let_def split: option.splits)

lemma get_or_create_keeps:
  "map_of (channels reg) k = Some ch \<Longrightarrow>
   map_of (channels (snd (get_or_create name_of k' reg))) k = Some ch"
  by (auto simp add: get_or_create_def Let_def split: option.splits)

lemma lookups_keeps:
  "map_of (channels reg) k = Some ch \<Longrightarrow> map_of (channels (lookups name_of later reg)) k = Some ch"
  unfolding lookups_def
  by (induction later arbitrary: reg) (simp_all add: get_or_create_keeps)

lemma get_or_create_twice:
  "get_or_create name_of k (snd (get_or_create name_of k reg)) = get_or_create name_of k reg"
  by (simp add: get_or_create_def Let_def split: option.splits)

lemma get_or_create_instances:
  assumes "map (\<lambda>p. channel_instance (snd p)) (channels reg) = rev [0 ..< constructed reg]"
  shows "map (\<lambda>p. channel_instance (snd p)) (channels (snd (get_or_create name_of k reg)))
           = rev [0 ..< constructed (snd (get_or_create name_of k reg))]"
  using assms by (simp add: get_or_create_def Let_def split: option.splits)

lemma lookups_instances:
  "map (\<lambda>p. channel_instance (snd p)) (channels reg) = rev [0 ..< constructed reg] \<Longrightarrow>
   map (\<lambda>p. channel_instance (snd p)) (channels (lookups name_of keys reg))
     = rev [0 ..< constructed (lookups name_of keys reg)]"
proof (induction keys arbitrary: reg)
  case Nil
  then show ?case by (simp add: lookups_def)
next
  case (Cons k keys)
  from Cons.IH [OF get_or_create_instances [OF Cons.prems, of name_of k]]
  show ?case by (simp add: lookups_def)
qed

lemma registry_after_instances:
  "distinct (map (\<lambda>p. channel_instance (snd p)) (channels (registry_after name_of keys)))"
proof -
  have "map (\<lambda>p. channel_instance (snd p)) (channels (registry_after name_of keys))
          = rev [0 ..< constructed (registry_after name_of keys)]"
    unfolding registry_after_def
    by (rule lookups_instances) (simp add: ChannelRegistry_empty_def)
  then show ?thesis by simp
qed

lemma distinct_instances:
  assumes d: "distinct (map (\<lambda>p. channel_instance (snd p)) (channels reg))"
    and a: "map_of (channels reg) k = Some c" and b: "map_of (channels reg) k' = Some c'"
    and ne: "k \<noteq> k'"
  shows "channel_instance c \<noteq> channel_instance c'"
proof
  assume eq: "channel_instance c = channel_instance c'"
  from a b have m: "(k, c) \<in> set (channels reg)" "(k', c') \<in> set (channels reg)"
    by (auto dest: map_of_SomeD)
  from d have "inj_on (\<lambda>p. channel_instance (snd p)) (set (channels reg))"
    by (simp add: distinct_map)
  then have "(k, c) = (k', c')"
    using m eq by (intro inj_onD [where f = "\<lambda>p. channel_instance (snd p)"]) simp_all
  with ne show False by simp
qed

lemma lookups_append: "lookups name_of (xs @ ys) reg = lookups name_of ys (lookups name_of xs reg)"
  by (simp add: lookups_def)

text \<open>
  C6. In a registry reached from the empty one by any lookups: a second
  \<open>get_or_create\<close> with the same key returns the same channel and leaves the registry as
  it is (nothing is constructed); two distinct keys get two distinct channel instances,
  whatever is looked up in between; and a cached channel stays cached under its key
  through all later lookups.
\<close>

theorem get_or_create_registry:
  "get_or_create name_of k (snd (get_or_create name_of k (registry_after name_of keys)))
     = get_or_create name_of k (registry_after name_of keys)
   \<and> (k \<noteq> k' \<longrightarrow>
        channel_instance (fst (get_or_create name_of k (registry_after name_of keys)))
        \<noteq> channel_instance
            (fst (get_or_create name_of k'
                    (lookups name_of later
                       (snd (get_or_create name_of k (registry_after name_of keys)))))))
   \<and> (map_of (channels (registry_after name_of keys)) k = Some ch \<longrightarrow>
        map_of (channels (registry_after name_of (keys @ later))) k = Some ch)"
proof (intro conjI impI)
  show "get_or_create name_of k (snd (get_or_create name_of k (registry_after name_of keys)))
          = get_or_create name_of k (registry_after name_of keys)"
    by (rule get_or_create_twice)
next
  assume ne: "k \<noteq> k'"
  let ?r1 = "snd (get_or_create name_of k (registry_after name_of keys))"
  let ?r2 = "lookups name_of later ?r1"
  let ?r3 = "snd (get_or_create name_of k' ?r2)"
  have r3: "?r3 = registry_after name_of (keys @ k # later @ [k'])"
    by (simp add: registry_after_def lookups_def)
  have d: "distinct (map (\<lambda>p. channel_instance (snd p)) (channels ?r3))"
    unfolding r3 by (rule registry_after_instances)
  have a: "map_of (channels ?r3) k = Some (fst (get_or_create name_of k (registry_after name_of keys)))"
    by (intro get_or_create_keeps lookups_keeps get_or_create_cached)
  have b: "map_of (channels ?r3) k' = Some (fst (get_or_create name_of k' ?r2))"
    by (rule get_or_create_cached)
  from distinct_instances [OF d a b ne]
  show "channel_instance (fst (get_or_create name_of k (registry_after name_of keys)))
        \<noteq> channel_instance (fst (get_or_create name_of k' ?r2))" .
next
  assume "map_of (channels (registry_after name_of keys)) k = Some ch"
  then show "map_of (channels (registry_after name_of (keys @ later))) k = Some ch"
    by (simp add: registry_after_def lookups_append lookups_keeps)
qed

theorem get_or_create_registry_witness:
  "(3::nat) \<noteq> 7
   \<and> map_of (channels (registry_after (\<lambda>k. replicate k CHR ''x'') [3, 5])) (3::nat)
       = Some \<lparr>channel_instance = 0, channel_name = replicate 3 CHR ''x''\<rparr>
   \<and> channel_instance
        (fst (get_or_create (\<lambda>k. replicate k CHR ''x'') 3
               (registry_after (\<lambda>k. replicate k CHR ''x'') [3, 5])))
       \<noteq> channel_instance
            (fst (get_or_create (\<lambda>k. replicate k CHR ''x'') 7
                   (lookups (\<lambda>k. replicate k CHR ''x'') [5]
                      (snd (get_or_create (\<lambda>k. replicate k CHR ''x'') 3
                              (registry_after (\<lambda>k. replicate k CHR ''x'') [3, 5]))))))
   \<and> map_of (channels (registry_after (\<lambda>k. replicate k CHR ''x'') ([3, 5] @ [5]))) (3::nat)
       = Some \<lparr>channel_instance = 0, channel_name = replicate 3 CHR ''x''\<rparr>"
proof -
  have ne: "(3::nat) \<noteq> 7" by simp
  have cached: "map_of (channels (registry_after (\<lambda>k. replicate k CHR ''x'') [3, 5])) (3::nat)
       = Some \<lparr>channel_instance = 0, channel_name = replicate 3 CHR ''x''\<rparr>"
    by (simp add: registry_after_def lookups_def get_or_create_def ChannelRegistry_empty_def
        Let_def)
  note reg = get_or_create_registry
    [of "\<lambda>k. replicate k CHR ''x''" 3 "[3, 5]" 7 "[5]"
        "\<lparr>channel_instance = 0, channel_name = replicate 3 CHR ''x''\<rparr>"]
  from reg ne have distinct: "channel_instance
        (fst (get_or_create (\<lambda>k. replicate k CHR ''x'') 3
               (registry_after (\<lambda>k. replicate k CHR ''x'') [3, 5])))
       \<noteq> channel_instance
            (fst (get_or_create (\<lambda>k. replicate k CHR ''x'') 7
                   (lookups (\<lambda>k. replicate k CHR ''x'') [5]
                      (snd (get_or_create (\<lambda>k. replicate k CHR ''x'') 3
                              (registry_after (\<lambda>k. replicate k CHR ''x'') [3, 5]))))))"
    by blast
  from reg cached have kept:
    "map_of (channels (registry_after (\<lambda>k. replicate k CHR ''x'') ([3, 5] @ [5]))) (3::nat)
       = Some \<lparr>channel_instance = 0, channel_name = replicate 3 CHR ''x''\<rparr>"
    by blast
  from ne cached distinct kept show ?thesis by blast
qed

section \<open>The GVD graph and cluster callbacks\<close>

lemma assign_two_headers:
  "markers \<noteq> [] \<Longrightarrow>
   and_then (assign_header_at markers 0 header) (\<lambda>markers.
   and_then (assign_header_at markers 1 header) (\<lambda>markers. Inr (f markers)))
   = (if length markers = 1 then Inl OutOfRange
      else Inr (f (markers[0 := (markers ! 0)\<lparr>marker_header := header\<rparr>,
                           1 := (markers ! 1)\<lparr>marker_header := header\<rparr>])))"
  by (cases markers) (auto simp add: and_then_def assign_header_at_def)

lemma gvd_graph_viz_cb_cases:
  assumes "ns = topology_marker_ns cfg @ ''_gvd_graph''"
    and "built = makeGvdGraphMarkers B graph (config_gvd cfg) (config_colormap cfg) ns"
  shows "gvd_graph_viz_cb B cfg header graph [] v =
     (if graph = [] \<and> published_gvd_graph v
      then Inr (True, [makeDeleteMarker B header 0 (ns @ ''_nodes''),
                       makeDeleteMarker B header 0 (ns @ ''_edges'')],
                v\<lparr>published_gvd_graph := False\<rparr>)
      else if built = [] then Inr (False, [], v)
      else if length built = 1 then Inl OutOfRange
      else Inr (True, built[0 := (built ! 0)\<lparr>marker_header := header\<rparr>,
                            1 := (built ! 1)\<lparr>marker_header := header\<rparr>],
                v\<lparr>published_gvd_graph := True\<rparr>))"
  unfolding gvd_graph_viz_cb_def Let_def assms
  by (simp add: assign_two_headers [unfolded One_nat_def])

lemma gvd_cluster_viz_cb_cases:
  assumes "ns = ''gvd_cluster_graph''"
    and "built = showGvdClusters B (fst compression) (fst (snd compression))
                   (snd (snd compression)) (config_gvd cfg) (config_colormap cfg) ns"
  shows "gvd_cluster_viz_cb B cfg header compression [] v =
     (if fst compression = [] \<and> published_gvd_clusters v
      then Inr (True, [makeDeleteMarker B header 0 (ns @ ''_nodes''),
                       makeDeleteMarker B header 0 (ns @ ''_edges'')],
                v\<lparr>published_gvd_graph := False\<rparr>)
      else if built = [] then Inr (False, [], v)
      else if length built = 1 then Inl OutOfRange
      else Inr (True, built[0 := (built ! 0)\<lparr>marker_header := header\<rparr>,
                            1 := (built ! 1)\<lparr>marker_header := header\<rparr>],
                v\<lparr>published_gvd_clusters := True\<rparr>))"
  unfolding gvd_cluster_viz_cb_def Let_def assms
  by (simp add: assign_two_headers [unfolded One_nat_def])

text \<open>
  C10. In both callbacks, once the built array passes the non-empty check, the headers
  at indices 0 and 1 are assigned. If the builder returns no marker or at least two, the
  callback returns normally; if it returns exactly one (and the retraction branch is not
  taken), the access at index 1 is out of range.
\<close>

theorem marker_array_at_in_bounds:
  "(length (makeGvdGraphMarkers B graph (config_gvd cfg) (config_colormap cfg)
              (topology_marker_ns cfg @ ''_gvd_graph'')) \<noteq> 1 \<longrightarrow>
      (\<exists>r. gvd_graph_viz_cb B cfg header graph [] v = Inr r))
   \<and> (2 \<le> length (makeGvdGraphMarkers B graph (config_gvd cfg) (config_colormap cfg)
                     (topology_marker_ns cfg @ ''_gvd_graph''))
        \<and> \<not> (graph = [] \<and> published_gvd_graph v) \<longrightarrow>
      map marker_header
        (take 2 (fst (snd (projr (gvd_graph_viz_cb B cfg header graph [] v)))))
      = [header, header])
   \<and> (length (makeGvdGraphMarkers B graph (config_gvd cfg) (config_colormap cfg)
                (topology_marker_ns cfg @ ''_gvd_graph'')) = 1
        \<and> \<not> (graph = [] \<and> published_gvd_graph v) \<longrightarrow>
      gvd_graph_viz_cb B cfg header graph [] v = Inl OutOfRange)
   \<and> (length (showGvdClusters B (fst compression) (fst (snd compression)) (snd (snd compression))
                (config_gvd cfg) (config_colormap cfg) ''gvd_cluster_graph'') \<noteq> 1 \<longrightarrow>
      (\<exists>r. gvd_cluster_viz_cb B cfg header compression [] v = Inr r))
   \<and> (2 \<le> length (showGvdClusters B (fst compression) (fst (snd compression))
                     (snd (snd compression)) (config_gvd cfg) (config_colormap cfg)
                     ''gvd_cluster_graph'')
        \<and> \<not> (fst compression = [] \<and> published_gvd_clusters v) \<longrightarrow>
      map marker_header
        (take 2 (fst (snd (projr (gvd_cluster_viz_cb B cfg header compression [] v)))))
      = [header, header])
   \<and> (length (showGvdClusters B (fst compression) (fst (snd compression)) (snd (snd compression))
                (config_gvd cfg) (config_colormap cfg) ''gvd_cluster_graph'') = 1
        \<and> \<not> (fst compression = [] \<and> published_gvd_clusters v) \<longrightarrow>
      gvd_cluster_viz_cb B cfg header compression [] v = Inl OutOfRange)"
proof -
  have stamped: "2 \<le> length ms \<Longrightarrow>
      map marker_header
        (take 2 (ms[0 := (ms ! 0)\<lparr>marker_header := header\<rparr>,
                    1 := (ms ! 1)\<lparr>marker_header := header\<rparr>])) = [header, header]"
    for ms :: "'p Marker list"
  proof (cases ms)
    case Nil
    then show "2 \<le> length ms \<Longrightarrow> ?thesis" by simp
  next
    case (Cons m ms')
    then show "2 \<le> length ms \<Longrightarrow> ?thesis" by (cases ms') simp_all
  qed
  show ?thesis
  proof (intro conjI impI)
    assume "length (makeGvdGraphMarkers B graph (config_gvd cfg) (config_colormap cfg)
              (topology_marker_ns cfg @ ''_gvd_graph'')) \<noteq> 1"
    then show "\<exists>r. gvd_graph_viz_cb B cfg header graph [] v = Inr r"
      by (auto simp add: gvd_graph_viz_cb_cases [OF refl refl])
  next
    assume "2 \<le> length (makeGvdGraphMarkers B graph (config_gvd cfg) (config_colormap cfg)
                     (topology_marker_ns cfg @ ''_gvd_graph''))
        \<and> \<not> (graph = [] \<and> published_gvd_graph v)"
    then show "map marker_header
        (take 2 (fst (snd (projr (gvd_graph_viz_cb B cfg header graph [] v)))))
      = [header, header]"
      using stamped [of "makeGvdGraphMarkers B graph (config_gvd cfg) (config_colormap cfg)
                     (topology_marker_ns cfg @ ''_gvd_graph'')"]
      by (auto simp add: gvd_graph_viz_cb_cases [OF refl refl])
  next
    assume "length (makeGvdGraphMarkers B graph (config_gvd cfg) (config_colormap cfg)
                (topology_marker_ns cfg @ ''_gvd_graph'')) = 1
        \<and> \<not> (graph = [] \<and> published_gvd_graph v)"
    then show "gvd_graph_viz_cb B cfg header graph [] v = Inl OutOfRange"
      by (auto simp add: gvd_graph_viz_cb_cases [OF refl refl])
  next
    assume "length (showGvdClusters B (fst compression) (fst (snd compression))
                (snd (snd compression)) (config_gvd cfg) (config_colormap cfg)
                ''gvd_cluster_graph'') \<noteq> 1"
    then show "\<exists>r. gvd_cluster_viz_cb B cfg header compression [] v = Inr r"
      by (auto simp add: gvd_cluster_viz_cb_cases [OF refl refl])
  next
    assume "2 \<le> length (showGvdClusters B (fst compression) (fst (snd compression))
                     (snd (snd compression)) (config_gvd cfg) (config_colormap cfg)
                     ''gvd_cluster_graph'')
        \<and> \<not> (fst compression = [] \<and> published_gvd_clusters v)"
    then show "map marker_header
        (take 2 (fst (snd (projr (gvd_cluster_viz_cb B cfg header compression [] v)))))
      = [header, header]"
      using stamped [of "showGvdClusters B (fst compression) (fst (snd compression))
                     (snd (snd compression)) (config_gvd cfg) (config_colormap cfg)
                     ''gvd_cluster_graph''"]
      by (auto simp add: gvd_cluster_viz_cb_cases [OF refl refl])
  next
    assume "length (showGvdClusters B (fst compression) (fst (snd compression))
                (snd (snd compression)) (config_gvd cfg) (config_colormap cfg)
                ''gvd_cluster_graph'') = 1
        \<and> \<not> (fst compression = [] \<and> published_gvd_clusters v)"
    then show "gvd_cluster_viz_cb B cfg header compression [] v = Inl OutOfRange"
      by (auto simp add: gvd_cluster_viz_cb_cases [OF refl refl])
  qed
qed

theorem marker_array_at_in_bounds_witness:
  "length (makeGvdGraphMarkers example_builders [1] (config_gvd example_config)
             (config_colormap example_config) (topology_marker_ns example_config @ ''_gvd_graph'')) \<noteq> 1
   \<and> 2 \<le> length (makeGvdGraphMarkers example_builders [1] (config_gvd example_config)
                   (config_colormap example_config)
                   (topology_marker_ns example_config @ ''_gvd_graph''))
   \<and> \<not> ([1::nat] = [] \<and> published_gvd_graph (Visualizer_init False))
   \<and> (\<exists>r. gvd_graph_viz_cb example_builders example_config
              \<lparr>frame_id = ''world'', stamp = 7\<rparr> [1] [] (Visualizer_init False) = Inr r)
   \<and> map marker_header
        (take 2 (fst (snd (projr (gvd_graph_viz_cb example_builders example_config
                                    \<lparr>frame_id = ''world'', stamp = 7\<rparr> [1] []
                                    (Visualizer_init False))))))
       = [\<lparr>frame_id = ''world'', stamp = 7\<rparr>, \<lparr>frame_id = ''world'', stamp = 7\<rparr>]
   \<and> length (showGvdClusters
               (example_builders\<lparr>showGvdClusters := \<lambda>g i r gc cc ns. [Marker_default]\<rparr>)
               (fst ([1], (), ())) (fst (snd ([1], (), ()))) (snd (snd ([1], (), ())))
               (config_gvd example_config) (config_colormap example_config)
               ''gvd_cluster_graph'') = 1
   \<and> \<not> (fst ([1::nat], (), ()) = [] \<and> published_gvd_clusters (Visualizer_init False))
   \<and> gvd_cluster_viz_cb
        (example_builders\<lparr>showGvdClusters := \<lambda>g i r gc cc ns. [Marker_default]\<rparr>)
        example_config \<lparr>frame_id = ''world'', stamp = 7\<rparr> ([1], (), ()) []
        (Visualizer_init False) = Inl OutOfRange"
proof -
  let ?B = "example_builders\<lparr>showGvdClusters := \<lambda>g i r gc cc ns. [Marker_default]\<rparr>"
  let ?h = "\<lparr>frame_id = ''world'', stamp = 7\<rparr>"
  have two: "length (makeGvdGraphMarkers example_builders [1] (config_gvd example_config)
             (config_colormap example_config) (topology_marker_ns example_config @ ''_gvd_graph'')) \<noteq> 1"
    by (simp add: example_builders_def)
  have two': "2 \<le> length (makeGvdGraphMarkers example_builders [1] (config_gvd example_config)
                   (config_colormap example_config)
                   (topology_marker_ns example_config @ ''_gvd_graph''))
     \<and> \<not> ([1::nat] = [] \<and> published_gvd_graph (Visualizer_init False))"
    by (simp add: example_builders_def)
  have one: "length (showGvdClusters ?B
               (fst ([1], (), ())) (fst (snd ([1], (), ()))) (snd (snd ([1], (), ())))
               (config_gvd example_config) (config_colormap example_config)
               ''gvd_cluster_graph'') = 1
     \<and> \<not> (fst ([1::nat], (), ()) = [] \<and> published_gvd_clusters (Visualizer_init False))"
    by simp
  note graph_side = marker_array_at_in_bounds
    [where B = example_builders and graph = "[1]" and cfg = example_config and header = ?h
       and v = "Visualizer_init False" and compression = "([1], (), ())"]
  note cluster_side = marker_array_at_in_bounds
    [where B = ?B and graph = "[1]" and cfg = example_config and header = ?h
       and v = "Visualizer_init False" and compression = "([1], (), ())"]
  from graph_side two
  have ok: "\<exists>r. gvd_graph_viz_cb example_builders example_config ?h [1] []
              (Visualizer_init False) = Inr r"
    by blast
  from graph_side two'
  have stamped: "map marker_header
        (take 2 (fst (snd (projr (gvd_graph_viz_cb example_builders example_config ?h [1] []
                                    (Visualizer_init False)))))) = [?h, ?h]"
    by blast
  from cluster_side one
  have bad: "gvd_cluster_viz_cb ?B example_config ?h ([1], (), ()) []
               (Visualizer_init False) = Inl OutOfRange"
    by blast
  from two two' one ok stamped bad show ?thesis by blast
qed

section \<open>Ticks on the example inputs\<close>

text \<open>
  C3. A tick with three nodes leaves three labels and three spheres remembered. The next
  tick, on an empty graph, returns from \<open>visualizeGraph\<close> at once: it sends nothing, so
  none of the labels or spheres is retracted, and the remembered state is unchanged.
\<close>

theorem visualizeGraph_skips_retraction:
  "\<exists>w1 w2.
     visualize example_builders example_config 1 []
       (Some (GraphExtractor (example_graph [1, 2, 3]) [])) (ReconstructionVisualizer False) = Inr w1
     \<and> previous_labels (fst w1) = [1, 2, 3] \<and> previous_spheres (fst w1) = 3
     \<and> visualize example_builders example_config 2 []
         (Some (GraphExtractor (example_graph []) [])) w1 = Inr w2
     \<and> new_sends (snd w1) (snd w2) = []
     \<and> previous_labels (fst w2) = [1, 2, 3] \<and> previous_spheres (fst w2) = 3"
  by (simp add: visualizer_defs gate_defs example_defs new_sends_def)

text \<open>
  C4. With a compression extractor, a tick on a non-empty GVD graph publishes both the
  graph and the clusters. On the next tick the graph is empty and both are retracted; the
  cluster callback clears \<open>published_gvd_graph_\<close>, not \<open>published_gvd_clusters_\<close>. On the
  third tick the graph is still empty and the cluster retraction is sent again.
\<close>

theorem cluster_retraction_repeats:
  "\<exists>w1 w2 w3.
     visualize example_builders example_config 1 []
       (Some (CompressionGraphExtractor (example_graph []) [1] () ()))
       (ReconstructionVisualizer False) = Inr w1
     \<and> published_gvd_graph (fst w1) \<and> published_gvd_clusters (fst w1)
     \<and> visualize example_builders example_config 2 []
         (Some (CompressionGraphExtractor (example_graph []) [] () ())) w1 = Inr w2
     \<and> map fst (new_sends (snd w1) (snd w2)) = [''gvd_graph_viz'', ''gvd_cluster_viz'']
     \<and> \<not> published_gvd_graph (fst w2) \<and> published_gvd_clusters (fst w2)
     \<and> visualize example_builders example_config 3 []
         (Some (CompressionGraphExtractor (example_graph []) [] () ())) w2 = Inr w3
     \<and> map (\<lambda>m. (fst m, deleted_ids (snd m))) (new_sends (snd w2) (snd w3))
         = [(''gvd_cluster_viz'', [0, 0])]
     \<and> published_gvd_clusters (fst w3)"
  by (simp add: visualizer_defs gate_defs example_defs new_sends_def)

text \<open>
  C7. A tick at time 7 that follows a tick with one node: on \<open>freespace_viz\<close> and on
  \<open>graph_label_viz\<close> the delete marker carries the stamp 0 of a default header, the
  markers added carry the stamp 7.
\<close>

theorem delete_markers_unstamped:
  "\<exists>w1 w2.
     visualize example_builders example_config 1 []
       (Some (GraphExtractor (example_graph [1]) [])) (ReconstructionVisualizer False) = Inr w1
     \<and> visualize example_builders example_config 7 []
         (Some (GraphExtractor (example_graph [2]) [])) w1 = Inr w2
     \<and> map (\<lambda>m. (deleted_ids m, map stamp (headers_of m)))
         (sends_on ''freespace_viz'' (new_sends (snd w1) (snd w2)))
         = [([0], [0]), ([], [7])]
     \<and> map (\<lambda>m. (deleted_ids m, map stamp (headers_of m)))
         (sends_on ''graph_label_viz'' (new_sends (snd w1) (snd w2)))
         = [([1], [0]), ([], [7])]"
  by (simp add: visualizer_defs gate_defs example_defs new_sends_def sends_on_def)

text \<open>
  C8, as stated, fails. On a fresh visualizer with block outlines shown, take a tick on a
  voxel layer without points and a graph that has a node but yields no place sphere. On
  \<open>freespace_viz\<close> the payload is empty and there is nothing to delete, and two (empty)
  marker arrays are sent; on \<open>voxel_block_viz\<close> the marker without points is sent. The
  three slice channels, which do test for emptiness, send nothing.
\<close>

theorem sends_when_payload_empty:
  "\<exists>w'.
     visualize (example_builders\<lparr>makePlaceSpheres := \<lambda>h g ns a. []\<rparr>)
       (example_config\<lparr>show_block_outlines := True\<rparr>) 1 []
       (Some (GraphExtractor (example_graph [1]) [])) (ReconstructionVisualizer False) = Inr w'
     \<and> previous_spheres (Visualizer_init False) = 0
     \<and> sends_on ''freespace_viz'' (new_sends [] (snd w')) = [MarkerArrayMsg [], MarkerArrayMsg []]
     \<and> map (\<lambda>m. case m of MarkerMsg m \<Rightarrow> marker_points m | MarkerArrayMsg ms \<Rightarrow> [])
         (sends_on ''voxel_block_viz'' (new_sends [] (snd w'))) = [[]]
     \<and> sends_on ''esdf_viz'' (new_sends [] (snd w')) = []"
  by (simp add: visualizer_defs gate_defs example_defs new_sends_def sends_on_def)

section \<open>Ticks without a compression extractor\<close>

lemma completes_onE:
  assumes "completes_on topics w r"
  obtains v' new lines where "r = Inr (v', snd w @ new)"
    and "list_all (\<lambda>m. fst m \<in> set topics) new"
    and "log_info v' = log_info (fst w) @ lines"
    and "published_gvd_clusters v' = published_gvd_clusters (fst w)"
proof (cases r)
  case (Inl e)
  with assms show ?thesis by (simp add: completes_on_def)
next
  case (Inr w')
  obtain v' sent' where w': "w' = (v', sent')" by (cases w')
  from assms Inr w' obtain new lines where "sent' = snd w @ new"
    and "log_info v' = log_info (fst w) @ lines"
    and "list_all (\<lambda>m. fst m \<in> set topics) (new_sends (snd w) sent')"
    and "published_gvd_clusters v' = published_gvd_clusters (fst w)"
    by (auto simp: completes_on_def prefix_def)
  with Inr w' that [of v' new lines] show ?thesis by simp
qed

lemma completes_onI:
  assumes "r = Inr (v', snd w @ new)"
    and "list_all (\<lambda>m. fst m \<in> set topics) new"
    and "log_info v' = log_info (fst w) @ lines"
    and "published_gvd_clusters v' = published_gvd_clusters (fst w)"
  shows "completes_on topics w r"
  using assms by (simp add: completes_on_def)

lemma completes_on_and_then:
  assumes first: "completes_on topics w r"
    and second: "\<And>w1. r = Inr w1 \<Longrightarrow> completes_on topics w1 (f w1)"
  shows "completes_on topics w (and_then r f)"
proof -
  from first obtain v1 new1 lines1 where r: "r = Inr (v1, snd w @ new1)"
    and t1: "list_all (\<lambda>m. fst m \<in> set topics) new1"
    and l1: "log_info v1 = log_info (fst w) @ lines1"
    and c1: "published_gvd_clusters v1 = published_gvd_clusters (fst w)"
    by (rule completes_onE)
  from second [OF r] obtain v2 new2 lines2 where f: "f (v1, snd w @ new1) = Inr (v2, snd (v1, snd w @ new1) @ new2)"
    and t2: "list_all (\<lambda>m. fst m \<in> set topics) new2"
    and l2: "log_info v2 = log_info (fst (v1, snd w @ new1)) @ lines2"
    and c2: "published_gvd_clusters v2 = published_gvd_clusters (fst (v1, snd w @ new1))"
    by (rule completes_onE)
  show ?thesis
  proof (rule completes_onI)
    show "and_then r f = Inr (v2, snd w @ (new1 @ new2))"
      using r f by (simp add: and_then_def)
    show "list_all (\<lambda>m. fst m \<in> set topics) (new1 @ new2)"
      using t1 t2 by simp
    show "log_info v2 = log_info (fst w) @ (lines1 @ lines2)"
      using l1 l2 by simp
    show "published_gvd_clusters v2 = published_gvd_clusters (fst w)"
      using c1 c2 by simp
  qed
qed

lemma completes_on_publish:
  assumes "name \<in> set topics"
    and "case producer fresh (fst w) of
           Inl e \<Rightarrow> False
         | Inr r \<Rightarrow> prefix (log_info (fst w)) (log_info (snd (snd r)))
                    \<and> published_gvd_clusters (snd (snd r)) = published_gvd_clusters (fst w)"
  shows "completes_on topics w (publish_gate wrap fresh name producer w)"
  using assms by (auto simp add: completes_on_def publish_gate_def split: sum.splits)

lemma completes_on_from:
  assumes "completes_on topics w1 r"
    and "snd w1 = snd w" and "log_info (fst w1) = log_info (fst w)"
    and "published_gvd_clusters (fst w1) = published_gvd_clusters (fst w)"
  shows "completes_on topics w r"
  using assms by (cases r) (auto simp add: completes_on_def)



lemma publishFreespace_completes:
  "completes_on other_topics w (publishFreespace B cfg header graph w)"
proof -
  have body: "completes_on other_topics w1
     (and_then (publish_gate MarkerArrayMsg [] ''freespace_viz'' (\<lambda>msg v. Inr (True, a, v)) w1)
        (\<lambda>w. and_then
                (publish_gate MarkerArrayMsg [] ''freespace_viz'' (\<lambda>msg v. Inr (True, b, v)) w)
                (\<lambda>w. publish_gate MarkerArrayMsg [] ''freespace_graph_viz''
                        (freespace_graph_viz_cb B cfg header graph) w)))"
    for w1 a b
    by (intro completes_on_and_then completes_on_publish)
       (simp_all add: freespace_graph_viz_cb_def Let_def other_topics_def)
  show ?thesis
    unfolding publishFreespace_def publish_array_def Let_def
    by (rule completes_on_from [OF body]) simp_all
qed

lemma publishGraphLabels_completes:
  "completes_on other_topics w (publishGraphLabels B cfg header graph w)"
proof (cases "use_label (config_graph_layer cfg)")
  case False
  then show ?thesis by (simp add: publishGraphLabels_def completes_on_def)
next
  case True
  have body: "completes_on other_topics w1
     (and_then (publish_gate MarkerArrayMsg [] ''graph_label_viz'' (\<lambda>msg v. Inr (True, a, v)) w1)
        (\<lambda>w. publish_gate MarkerArrayMsg [] ''graph_label_viz'' (\<lambda>msg v. Inr (True, b, v)) w))"
    for w1 a b
    by (intro completes_on_and_then completes_on_publish) (simp_all add: other_topics_def)
  from True show ?thesis
    unfolding publishGraphLabels_def publish_array_def Let_def
    by (simp only: not_True_eq_False if_False) (rule completes_on_from [OF body], simp_all)
qed

lemma visualizeGraph_completes:
  "completes_on other_topics w (visualizeGraph B cfg header graph w)"
proof (cases "nodes graph = []")
  case True
  then show ?thesis
    by (simp add: visualizeGraph_def completes_on_def LOG_INFO_def)
next
  case False
  then show ?thesis
    unfolding visualizeGraph_def publish_array_def
    by (simp only: if_False)
       (intro completes_on_and_then completes_on_publish publishFreespace_completes
          publishGraphLabels_completes,
        simp_all add: graph_viz_cb_def Let_def other_topics_def)
qed


lemma visualize_GraphExtractor:
  "visualize B cfg timestamp_ns gvd (Some (GraphExtractor g v)) w =
     and_then (visualizeGvd B cfg \<lparr>frame_id = world_frame cfg, stamp = timestamp_ns\<rparr> gvd w) (\<lambda>w.
     and_then (visualizeGraph B cfg \<lparr>frame_id = world_frame cfg, stamp = timestamp_ns\<rparr> g w) (\<lambda>w.
     and_then (visualizeGvdGraph B cfg \<lparr>frame_id = world_frame cfg, stamp = timestamp_ns\<rparr> v w) (\<lambda>w.
     if show_block_outlines cfg
     then visualizeBlocks B cfg \<lparr>frame_id = world_frame cfg, stamp = timestamp_ns\<rparr> gvd w
     else Inr w)))"
  by (simp add: visualize_def Let_def and_then_def Header_default_def split: sum.splits)

lemma visualize_None:
  "visualize B cfg timestamp_ns gvd None w =
     and_then (visualizeGvd B cfg \<lparr>frame_id = world_frame cfg, stamp = timestamp_ns\<rparr> gvd w) (\<lambda>w.
     if show_block_outlines cfg
     then visualizeBlocks B cfg \<lparr>frame_id = world_frame cfg, stamp = timestamp_ns\<rparr> gvd w
     else Inr w)"
  by (simp add: visualize_def Let_def and_then_def Header_default_def split: sum.splits)

lemma visualize_CompressionGraphExtractor:
  "visualize B cfg timestamp_ns gvd (Some (CompressionGraphExtractor g v i r)) w =
     and_then (visualize B cfg timestamp_ns gvd (Some (GraphExtractor g v)) w)
       (publish_array ''gvd_cluster_viz''
          (gvd_cluster_viz_cb B cfg \<lparr>frame_id = world_frame cfg, stamp = timestamp_ns\<rparr> (v, i, r)))"
  by (simp add: visualize_def Let_def and_then_def Header_default_def split: sum.splits)




section \<open>What a tick sends on each channel\<close>

lemma sends_on_append: "sends_on name (xs @ ys) = sends_on name xs @ sends_on name ys"
  by (simp add: sends_on_def)

lemma sends_on_silent:
  "list_all (\<lambda>m. fst m \<in> set topics) new \<Longrightarrow> name \<notin> set topics \<Longrightarrow> sends_on name new = []"
  by (induction new) (auto simp add: sends_on_def)

lemma visualizeGvd_sends:
  obtains v' new where
    "visualizeGvd B cfg header gvd w = Inr (v', snd w @ new)"
    and "sends_on ''esdf_viz'' new =
          (if marker_points (makeEsdfMarker B (config_gvd cfg) (config_colormap cfg) gvd) = []
           then []
           else [MarkerMsg ((makeEsdfMarker B (config_gvd cfg) (config_colormap cfg) gvd)
                              \<lparr>marker_header := header, marker_ns := ''gvd_visualizer''\<rparr>)])"
    and "sends_on ''gvd_viz'' new =
          (if marker_points (makeGvdMarker B (config_gvd cfg) (config_colormap cfg) gvd) = []
           then []
           else [MarkerMsg ((makeGvdMarker B (config_gvd cfg) (config_colormap cfg) gvd)
                              \<lparr>marker_header := header, marker_ns := ''gvd_visualizer''\<rparr>)])"
    and "sends_on ''surface_viz'' new =
          (if marker_points (makeSurfaceVoxelMarker B (config_gvd cfg) (config_colormap cfg) gvd) = []
           then []
           else [MarkerMsg ((makeSurfaceVoxelMarker B (config_gvd cfg) (config_colormap cfg) gvd)
                              \<lparr>marker_header := header, marker_ns := ''gvd_visualizer''\<rparr>)])"
    and "list_all (\<lambda>m. fst m \<in> set [''esdf_viz'', ''gvd_viz'', ''surface_viz'']) new"
    and "previous_spheres v' = previous_spheres (fst w)"
    and "previous_labels v' = previous_labels (fst w)"
    and "published_gvd_graph v' = published_gvd_graph (fst w)"
    and "published_gvd_clusters v' = published_gvd_clusters (fst w)"
proof -
  have "\<exists>v' new.
    visualizeGvd B cfg header gvd w = Inr (v', snd w @ new)
    \<and> sends_on ''esdf_viz'' new =
          (if marker_points (makeEsdfMarker B (config_gvd cfg) (config_colormap cfg) gvd) = []
           then []
           else [MarkerMsg ((makeEsdfMarker B (config_gvd cfg) (config_colormap cfg) gvd)
                              \<lparr>marker_header := header, marker_ns := ''gvd_visualizer''\<rparr>)])
    \<and> sends_on ''gvd_viz'' new =
          (if marker_points (makeGvdMarker B (config_gvd cfg) (config_colormap cfg) gvd) = []
           then []
           else [MarkerMsg ((makeGvdMarker B (config_gvd cfg) (config_colormap cfg) gvd)
                              \<lparr>marker_header := header, marker_ns := ''gvd_visualizer''\<rparr>)])
    \<and> sends_on ''surface_viz'' new =
          (if marker_points (makeSurfaceVoxelMarker B (config_gvd cfg) (config_colormap cfg) gvd) = []
           then []
           else [MarkerMsg ((makeSurfaceVoxelMarker B (config_gvd cfg) (config_colormap cfg) gvd)
                              \<lparr>marker_header := header, marker_ns := ''gvd_visualizer''\<rparr>)])
    \<and> list_all (\<lambda>m. fst m \<in> set [''esdf_viz'', ''gvd_viz'', ''surface_viz'']) new
    \<and> previous_spheres v' = previous_spheres (fst w)
    \<and> previous_labels v' = previous_labels (fst w)
    \<and> published_gvd_graph v' = published_gvd_graph (fst w)
    \<and> published_gvd_clusters v' = published_gvd_clusters (fst w)"
    by (simp add: visualizeGvd_def esdf_viz_cb_def gvd_viz_cb_def surface_viz_cb_def Let_def
        gate_defs sends_on_def LOG_INFO_def)
  then show thesis using that by blast
qed

lemma visualizeBlocks_sends:
  "visualizeBlocks B cfg header gvd w =
     Inr (fst w, snd w @
       [(''voxel_block_viz'',
         MarkerMsg ((makeBlocksMarker B gvd (outline_scale cfg))
                      \<lparr>marker_header := header, marker_ns := ''topology_server_blocks''\<rparr>))])"
  by (simp add: visualizeBlocks_def voxel_block_viz_cb_def Let_def gate_defs)

lemma visualizeGraph_sends:
  obtains v' new where
    "visualizeGraph B cfg header graph w = Inr (v', snd w @ new)"
    and "sends_on ''graph_viz'' new =
          (if nodes graph = [] then []
           else [MarkerArrayMsg
                   (makeCentroidMarkers B header (config_graph_layer cfg) graph (config_graph cfg)
                      (topology_marker_ns cfg @ ''_nodes'') (config_colormap cfg)
                    # (if edges graph \<noteq> []
                       then [makeLayerEdgeMarkers B header (config_graph_layer cfg) graph
                               (config_graph cfg) NodeColor_Zero
                               (topology_marker_ns cfg @ ''_edges'')]
                       else []))])"
    and "sends_on ''freespace_viz'' new =
          (if nodes graph = [] then []
           else [MarkerArrayMsg
                   (map (\<lambda>id. Marker_default\<lparr>marker_action := DELETE,
                                             marker_id := int32_of_size_t id,
                                             marker_ns := topology_marker_ns cfg @ ''_freespace''\<rparr>)
                      [0 ..< previous_spheres (fst w)]),
                 MarkerArrayMsg
                   (makePlaceSpheres B header graph (topology_marker_ns cfg @ ''_freespace'') 0.15)])"
    and "sends_on ''freespace_graph_viz'' new =
          (if nodes graph = [] then []
           else [MarkerArrayMsg
                   (makeCentroidMarkersFn B header
                      ((config_graph_layer cfg)\<lparr>use_sphere_marker := False, marker_scale := 0.08,
                                                 marker_alpha := 0.5\<rparr>)
                      graph (config_graph cfg) (topology_marker_ns cfg @ ''_freespace_nodes'')
                      (\<lambda>_. NodeColor_Zero)
                    # (if edges graph \<noteq> []
                       then [makeLayerEdgeMarkers B header (config_graph_layer cfg) graph
                               (config_graph cfg) NodeColor_Zero
                               (topology_marker_ns cfg @ ''_freespace_edges'')]
                       else []))])"
    and "sends_on ''graph_label_viz'' new =
          (if nodes graph = [] \<or> \<not> use_label (config_graph_layer cfg) then []
           else [MarkerArrayMsg
                   (map (\<lambda>to_delete. Marker_default\<lparr>marker_action := DELETE,
                                                     marker_id := to_delete,
                                                     marker_ns := topology_marker_ns cfg @ ''_labels''\<rparr>)
                      (fold (\<lambda>previous s.
                               if set_count
                                    (fold (\<lambda>label s. set_insert (marker_id label) s)
                                       (map (\<lambda>id_node_pair.
                                               makeTextMarker B header (config_graph_layer cfg)
                                                 (snd id_node_pair) (config_graph cfg)
                                                 (topology_marker_ns cfg @ ''_labels''))
                                          (nodes graph)) [])
                                    previous = 0
                               then set_insert previous s else s)
                         (previous_labels (fst w)) [])),
                 MarkerArrayMsg
                   (map (\<lambda>id_node_pair.
                           makeTextMarker B header (config_graph_layer cfg) (snd id_node_pair)
                             (config_graph cfg) (topology_marker_ns cfg @ ''_labels''))
                      (nodes graph))])"
    and "list_all (\<lambda>m. fst m \<in> set [''graph_viz'', ''freespace_viz'', ''freespace_graph_viz'',
                                      ''graph_label_viz'']) new"
    and "published_gvd_graph v' = published_gvd_graph (fst w)"
    and "published_gvd_clusters v' = published_gvd_clusters (fst w)"
proof -
  have "\<exists>v' new.
    visualizeGraph B cfg header graph w = Inr (v', snd w @ new)
    \<and> sends_on ''graph_viz'' new =
          (if nodes graph = [] then []
           else [MarkerArrayMsg
                   (makeCentroidMarkers B header (config_graph_layer cfg) graph (config_graph cfg)
                      (topology_marker_ns cfg @ ''_nodes'') (config_colormap cfg)
                    # (if edges graph \<noteq> []
                       then [makeLayerEdgeMarkers B header (config_graph_layer cfg) graph
                               (config_graph cfg) NodeColor_Zero
                               (topology_marker_ns cfg @ ''_edges'')]
                       else []))])
    \<and> sends_on ''freespace_viz'' new =
          (if nodes graph = [] then []
           else [MarkerArrayMsg
                   (map (\<lambda>id. Marker_default\<lparr>marker_action := DELETE,
                                             marker_id := int32_of_size_t id,
                                             marker_ns := topology_marker_ns cfg @ ''_freespace''\<rparr>)
                      [0 ..< previous_spheres (fst w)]),
                 MarkerArrayMsg
                   (makePlaceSpheres B header graph (topology_marker_ns cfg @ ''_freespace'') 0.15)])
    \<and> sends_on ''freespace_graph_viz'' new =
          (if nodes graph = [] then []
           else [MarkerArrayMsg
                   (makeCentroidMarkersFn B header
                      ((config_graph_layer cfg)\<lparr>use_sphere_marker := False, marker_scale := 0.08,
                                                 marker_alpha := 0.5\<rparr>)
                      graph (config_graph cfg) (topology_marker_ns cfg @ ''_freespace_nodes'')
                      (\<lambda>_. NodeColor_Zero)
                    # (if edges graph \<noteq> []
                       then [makeLayerEdgeMarkers B header (config_graph_layer cfg) graph
                               (config_graph cfg) NodeColor_Zero
                               (topology_marker_ns cfg @ ''_freespace_edges'')]
                       else []))])
    \<and> sends_on ''graph_label_viz'' new =
          (if nodes graph = [] \<or> \<not> use_label (config_graph_layer cfg) then []
           else [MarkerArrayMsg
                   (map (\<lambda>to_delete. Marker_default\<lparr>marker_action := DELETE,
                                                     marker_id := to_delete,
                                                     marker_ns := topology_marker_ns cfg @ ''_labels''\<rparr>)
                      (fold (\<lambda>previous s.
                               if set_count
                                    (fold (\<lambda>label s. set_insert (marker_id label) s)
                                       (map (\<lambda>id_node_pair.
                                               makeTextMarker B header (config_graph_layer cfg)
                                                 (snd id_node_pair) (config_graph cfg)
                                                 (topology_marker_ns cfg @ ''_labels''))
                                          (nodes graph)) [])
                                    previous = 0
                               then set_insert previous s else s)
                         (previous_labels (fst w)) [])),
                 MarkerArrayMsg
                   (map (\<lambda>id_node_pair.
                           makeTextMarker B header (config_graph_layer cfg) (snd id_node_pair)
                             (config_graph cfg) (topology_marker_ns cfg @ ''_labels''))
                      (nodes graph))])
    \<and> list_all (\<lambda>m. fst m \<in> set [''graph_viz'', ''freespace_viz'', ''freespace_graph_viz'',
                                      ''graph_label_viz'']) new
    \<and> published_gvd_graph v' = published_gvd_graph (fst w)
    \<and> published_gvd_clusters v' = published_gvd_clusters (fst w)"
    by (simp add: visualizeGraph_def graph_viz_cb_def publishFreespace_def
        freespace_graph_viz_cb_def publishGraphLabels_def Let_def gate_defs sends_on_def
        LOG_INFO_def)
  then show thesis using that by blast
qed

lemma sends_on_Nil [simp]: "sends_on name [] = []"
  by (simp add: sends_on_def)

lemma sends_on_Cons [simp]:
  "sends_on name (m # ms) = (if fst m = name then snd m # sends_on name ms else sends_on name ms)"
  by (simp add: sends_on_def)

lemma visualizeGvdGraph_sends:
  assumes "length (makeGvdGraphMarkers B graph (config_gvd cfg) (config_colormap cfg)
                     (topology_marker_ns cfg @ ''_gvd_graph'')) \<noteq> 1"
  obtains v' new where
    "visualizeGvdGraph B cfg header graph w = Inr (v', snd w @ new)"
    and "sends_on ''gvd_graph_viz'' new =
          (if graph = [] \<and> published_gvd_graph (fst w)
           then [MarkerArrayMsg
                   [makeDeleteMarker B header 0 (topology_marker_ns cfg @ ''_gvd_graph'' @ ''_nodes''),
                    makeDeleteMarker B header 0 (topology_marker_ns cfg @ ''_gvd_graph'' @ ''_edges'')]]
           else if makeGvdGraphMarkers B graph (config_gvd cfg) (config_colormap cfg)
                     (topology_marker_ns cfg @ ''_gvd_graph'') = []
           then []
           else [MarkerArrayMsg
                   ((makeGvdGraphMarkers B graph (config_gvd cfg) (config_colormap cfg)
                       (topology_marker_ns cfg @ ''_gvd_graph''))
                    [0 := (makeGvdGraphMarkers B graph (config_gvd cfg) (config_colormap cfg)
                             (topology_marker_ns cfg @ ''_gvd_graph'') ! 0)
                          \<lparr>marker_header := header\<rparr>,
                     1 := (makeGvdGraphMarkers B graph (config_gvd cfg) (config_colormap cfg)
                             (topology_marker_ns cfg @ ''_gvd_graph'') ! 1)
                          \<lparr>marker_header := header\<rparr>])])"
    and "list_all (\<lambda>m. fst m \<in> set [''gvd_graph_viz'']) new"
    and "published_gvd_clusters v' = published_gvd_clusters (fst w)"
proof -
  have "\<exists>v' new.
    visualizeGvdGraph B cfg header graph w = Inr (v', snd w @ new)
    \<and> sends_on ''gvd_graph_viz'' new =
          (if graph = [] \<and> published_gvd_graph (fst w)
           then [MarkerArrayMsg
                   [makeDeleteMarker B header 0 (topology_marker_ns cfg @ ''_gvd_graph'' @ ''_nodes''),
                    makeDeleteMarker B header 0 (topology_marker_ns cfg @ ''_gvd_graph'' @ ''_edges'')]]
           else if makeGvdGraphMarkers B graph (config_gvd cfg) (config_colormap cfg)
                     (topology_marker_ns cfg @ ''_gvd_graph'') = []
           then []
           else [MarkerArrayMsg
                   ((makeGvdGraphMarkers B graph (config_gvd cfg) (config_colormap cfg)
                       (topology_marker_ns cfg @ ''_gvd_graph''))
                    [0 := (makeGvdGraphMarkers B graph (config_gvd cfg) (config_colormap cfg)
                             (topology_marker_ns cfg @ ''_gvd_graph'') ! 0)
                          \<lparr>marker_header := header\<rparr>,
                     1 := (makeGvdGraphMarkers B graph (config_gvd cfg) (config_colormap cfg)
                             (topology_marker_ns cfg @ ''_gvd_graph'') ! 1)
                          \<lparr>marker_header := header\<rparr>])])
    \<and> list_all (\<lambda>m. fst m \<in> set [''gvd_graph_viz'']) new
    \<and> published_gvd_clusters v' = published_gvd_clusters (fst w)"
    using assms
    by (cases w)
       (simp add: visualizeGvdGraph_def publish_array_def publish_gate_def
          gvd_graph_viz_cb_cases [OF refl refl])
  then show thesis using that by blast
qed

lemma gvd_cluster_viz_sends:
  assumes "length (showGvdClusters B (fst c) (fst (snd c)) (snd (snd c)) (config_gvd cfg)
                     (config_colormap cfg) ''gvd_cluster_graph'') \<noteq> 1"
  obtains v' new where
    "publish_array ''gvd_cluster_viz'' (gvd_cluster_viz_cb B cfg header c) w = Inr (v', snd w @ new)"
    and "sends_on ''gvd_cluster_viz'' new =
          (if fst c = [] \<and> published_gvd_clusters (fst w)
           then [MarkerArrayMsg
                   [makeDeleteMarker B header 0 (''gvd_cluster_graph'' @ ''_nodes''),
                    makeDeleteMarker B header 0 (''gvd_cluster_graph'' @ ''_edges'')]]
           else if showGvdClusters B (fst c) (fst (snd c)) (snd (snd c)) (config_gvd cfg)
                     (config_colormap cfg) ''gvd_cluster_graph'' = []
           then []
           else [MarkerArrayMsg
                   ((showGvdClusters B (fst c) (fst (snd c)) (snd (snd c)) (config_gvd cfg)
                       (config_colormap cfg) ''gvd_cluster_graph'')
                    [0 := (showGvdClusters B (fst c) (fst (snd c)) (snd (snd c)) (config_gvd cfg)
                             (config_colormap cfg) ''gvd_cluster_graph'' ! 0)
                          \<lparr>marker_header := header\<rparr>,
                     1 := (showGvdClusters B (fst c) (fst (snd c)) (snd (snd c)) (config_gvd cfg)
                             (config_colormap cfg) ''gvd_cluster_graph'' ! 1)
                          \<lparr>marker_header := header\<rparr>])])"
    and "list_all (\<lambda>m. fst m \<in> set [''gvd_cluster_viz'']) new"
proof -
  have "\<exists>v' new.
    publish_array ''gvd_cluster_viz'' (gvd_cluster_viz_cb B cfg header c) w = Inr (v', snd w @ new)
    \<and> sends_on ''gvd_cluster_viz'' new =
          (if fst c = [] \<and> published_gvd_clusters (fst w)
           then [MarkerArrayMsg
                   [makeDeleteMarker B header 0 (''gvd_cluster_graph'' @ ''_nodes''),
                    makeDeleteMarker B header 0 (''gvd_cluster_graph'' @ ''_edges'')]]
           else if showGvdClusters B (fst c) (fst (snd c)) (snd (snd c)) (config_gvd cfg)
                     (config_colormap cfg) ''gvd_cluster_graph'' = []
           then []
           else [MarkerArrayMsg
                   ((showGvdClusters B (fst c) (fst (snd c)) (snd (snd c)) (config_gvd cfg)
                       (config_colormap cfg) ''gvd_cluster_graph'')
                    [0 := (showGvdClusters B (fst c) (fst (snd c)) (snd (snd c)) (config_gvd cfg)
                             (config_colormap cfg) ''gvd_cluster_graph'' ! 0)
                          \<lparr>marker_header := header\<rparr>,
                     1 := (showGvdClusters B (fst c) (fst (snd c)) (snd (snd c)) (config_gvd cfg)
                             (config_colormap cfg) ''gvd_cluster_graph'' ! 1)
                          \<lparr>marker_header := header\<rparr>])])
    \<and> list_all (\<lambda>m. fst m \<in> set [''gvd_cluster_viz'']) new"
    using assms
    by (cases w)
       (simp add: publish_array_def publish_gate_def gvd_cluster_viz_cb_cases [OF refl refl])
  then show thesis using that by blast
qed

lemma blocks_step:
  "(if show_block_outlines cfg then visualizeBlocks B cfg \<lparr>frame_id = world_frame cfg, stamp = timestamp_ns\<rparr> gvd w else Inr w) =
     Inr (fst w, snd w @ (if show_block_outlines cfg
        then [(''voxel_block_viz'',
               MarkerMsg ((makeBlocksMarker B gvd (outline_scale cfg))
                            \<lparr>marker_header := \<lparr>frame_id = world_frame cfg, stamp = timestamp_ns\<rparr>, marker_ns := ''topology_server_blocks''\<rparr>))]
        else []))"
  by (simp add: visualizeBlocks_sends)

lemma blocks_sends:
  "sends_on name (if show_block_outlines cfg
        then [(''voxel_block_viz'',
               MarkerMsg ((makeBlocksMarker B gvd (outline_scale cfg))
                            \<lparr>marker_header := \<lparr>frame_id = world_frame cfg, stamp = timestamp_ns\<rparr>, marker_ns := ''topology_server_blocks''\<rparr>))]
        else []) =
     (if name = ''voxel_block_viz'' \<and> show_block_outlines cfg
      then [MarkerMsg ((makeBlocksMarker B gvd (outline_scale cfg))
                         \<lparr>marker_header := \<lparr>frame_id = world_frame cfg, stamp = timestamp_ns\<rparr>, marker_ns := ''topology_server_blocks''\<rparr>)]
      else [])"
  by auto

lemma visualize_None_sends:
  "\<exists>v' new.
     visualize B cfg timestamp_ns gvd None w = Inr (v', snd w @ new)
   \<and> sends_on ''esdf_viz'' new =
       (if marker_points (makeEsdfMarker B (config_gvd cfg) (config_colormap cfg) gvd) = [] then []
        else [MarkerMsg ((makeEsdfMarker B (config_gvd cfg) (config_colormap cfg) gvd)
                           \<lparr>marker_header := \<lparr>frame_id = world_frame cfg, stamp = timestamp_ns\<rparr>, marker_ns := ''gvd_visualizer''\<rparr>)])
   \<and> sends_on ''gvd_viz'' new =
       (if marker_points (makeGvdMarker B (config_gvd cfg) (config_colormap cfg) gvd) = [] then []
        else [MarkerMsg ((makeGvdMarker B (config_gvd cfg) (config_colormap cfg) gvd)
                           \<lparr>marker_header := \<lparr>frame_id = world_frame cfg, stamp = timestamp_ns\<rparr>, marker_ns := ''gvd_visualizer''\<rparr>)])
   \<and> sends_on ''surface_viz'' new =
       (if marker_points (makeSurfaceVoxelMarker B (config_gvd cfg) (config_colormap cfg) gvd) = [] then []
        else [MarkerMsg ((makeSurfaceVoxelMarker B (config_gvd cfg) (config_colormap cfg) gvd)
                           \<lparr>marker_header := \<lparr>frame_id = world_frame cfg, stamp = timestamp_ns\<rparr>, marker_ns := ''gvd_visualizer''\<rparr>)])
   \<and> sends_on ''voxel_block_viz'' new =
       (if show_block_outlines cfg
        then [MarkerMsg ((makeBlocksMarker B gvd (outline_scale cfg))
                           \<lparr>marker_header := \<lparr>frame_id = world_frame cfg, stamp = timestamp_ns\<rparr>, marker_ns := ''topology_server_blocks''\<rparr>)]
        else [])
   \<and> sends_on ''graph_viz'' new = []
   \<and> sends_on ''freespace_viz'' new = []
   \<and> sends_on ''freespace_graph_viz'' new = []
   \<and> sends_on ''graph_label_viz'' new = []
   \<and> sends_on ''gvd_graph_viz'' new = []
   \<and> sends_on ''gvd_cluster_viz'' new = []
   \<and> published_gvd_clusters v' = published_gvd_clusters (fst w)"
proof (rule visualizeGvd_sends [of B cfg "\<lparr>frame_id = world_frame cfg, stamp = timestamp_ns\<rparr>" gvd w], goal_cases)
  case slices: (1 v1 n1)
  note quiet = sends_on_silent [OF slices(5)]
  let ?n4 = "(if show_block_outlines cfg
        then [(''voxel_block_viz'',
               MarkerMsg ((makeBlocksMarker B gvd (outline_scale cfg))
                            \<lparr>marker_header := \<lparr>frame_id = world_frame cfg, stamp = timestamp_ns\<rparr>, marker_ns := ''topology_server_blocks''\<rparr>))]
        else [])"
  have "visualize B cfg timestamp_ns gvd None w = Inr (v1, snd w @ (n1 @ ?n4))
   \<and> sends_on ''esdf_viz'' (n1 @ ?n4) =
       (if marker_points (makeEsdfMarker B (config_gvd cfg) (config_colormap cfg) gvd) = [] then []
        else [MarkerMsg ((makeEsdfMarker B (config_gvd cfg) (config_colormap cfg) gvd)
                           \<lparr>marker_header := \<lparr>frame_id = world_frame cfg, stamp = timestamp_ns\<rparr>, marker_ns := ''gvd_visualizer''\<rparr>)])
   \<and> sends_on ''gvd_viz'' (n1 @ ?n4) =
       (if marker_points (makeGvdMarker B (config_gvd cfg) (config_colormap cfg) gvd) = [] then []
        else [MarkerMsg ((makeGvdMarker B (config_gvd cfg) (config_colormap cfg) gvd)
                           \<lparr>marker_header := \<lparr>frame_id = world_frame cfg, stamp = timestamp_ns\<rparr>, marker_ns := ''gvd_visualizer''\<rparr>)])
   \<and> sends_on ''surface_viz'' (n1 @ ?n4) =
       (if marker_points (makeSurfaceVoxelMarker B (config_gvd cfg) (config_colormap cfg) gvd) = [] then []
        else [MarkerMsg ((makeSurfaceVoxelMarker B (config_gvd cfg) (config_colormap cfg) gvd)
                           \<lparr>marker_header := \<lparr>frame_id = world_frame cfg, stamp = timestamp_ns\<rparr>, marker_ns := ''gvd_visualizer''\<rparr>)])
   \<and> sends_on ''voxel_block_viz'' (n1 @ ?n4) =
       (if show_block_outlines cfg
        then [MarkerMsg ((makeBlocksMarker B gvd (outline_scale cfg))
                           \<lparr>marker_header := \<lparr>frame_id = world_frame cfg, stamp = timestamp_ns\<rparr>, marker_ns := ''topology_server_blocks''\<rparr>)]
        else [])
   \<and> sends_on ''graph_viz'' (n1 @ ?n4) = []
   \<and> sends_on ''freespace_viz'' (n1 @ ?n4) = []
   \<and> sends_on ''freespace_graph_viz'' (n1 @ ?n4) = []
   \<and> sends_on ''graph_label_viz'' (n1 @ ?n4) = []
   \<and> sends_on ''gvd_graph_viz'' (n1 @ ?n4) = []
   \<and> sends_on ''gvd_cluster_viz'' (n1 @ ?n4) = []
   \<and> published_gvd_clusters v1 = published_gvd_clusters (fst w)"
    by (simp add: visualize_None slices(1) and_then_def blocks_step sends_on_append
        blocks_sends slices(2-4) quiet slices(9) split del: if_split)
  then show ?case
    by (rule_tac x = v1 in exI, rule_tac x = "n1 @ ?n4" in exI)
qed

lemma visualize_GraphExtractor_sends:
  assumes "length (makeGvdGraphMarkers B v (config_gvd cfg) (config_colormap cfg)
                 (topology_marker_ns cfg @ ''_gvd_graph'')) \<noteq> 1"
  shows "\<exists>v' new.
     visualize B cfg timestamp_ns gvd (Some (GraphExtractor g v)) w = Inr (v', snd w @ new)
   \<and> sends_on ''esdf_viz'' new =
       (if marker_points (makeEsdfMarker B (config_gvd cfg) (config_colormap cfg) gvd) = [] then []
        else [MarkerMsg ((makeEsdfMarker B (config_gvd cfg) (config_colormap cfg) gvd)
                           \<lparr>marker_header := \<lparr>frame_id = world_frame cfg, stamp = timestamp_ns\<rparr>, marker_ns := ''gvd_visualizer''\<rparr>)])
   \<and> sends_on ''gvd_viz'' new =
       (if marker_points (makeGvdMarker B (config_gvd cfg) (config_colormap cfg) gvd) = [] then []
        else [MarkerMsg ((makeGvdMarker B (config_gvd cfg) (config_colormap cfg) gvd)
                           \<lparr>marker_header := \<lparr>frame_id = world_frame cfg, stamp = timestamp_ns\<rparr>, marker_ns := ''gvd_visualizer''\<rparr>)])
   \<and> sends_on ''surface_viz'' new =
       (if marker_points (makeSurfaceVoxelMarker B (config_gvd cfg) (config_colormap cfg) gvd) = [] then []
        else [MarkerMsg ((makeSurfaceVoxelMarker B (config_gvd cfg) (config_colormap cfg) gvd)
                           \<lparr>marker_header := \<lparr>frame_id = world_frame cfg, stamp = timestamp_ns\<rparr>, marker_ns := ''gvd_visualizer''\<rparr>)])
   \<and> sends_on ''voxel_block_viz'' new =
       (if show_block_outlines cfg
        then [MarkerMsg ((makeBlocksMarker B gvd (outline_scale cfg))
                           \<lparr>marker_header := \<lparr>frame_id = world_frame cfg, stamp = timestamp_ns\<rparr>, marker_ns := ''topology_server_blocks''\<rparr>)]
        else [])
   \<and> sends_on ''graph_viz'' new =
       (if nodes g = [] then []
        else [MarkerArrayMsg
                (makeCentroidMarkers B \<lparr>frame_id = world_frame cfg, stamp = timestamp_ns\<rparr> (config_graph_layer cfg) g (config_graph cfg)
                   (topology_marker_ns cfg @ ''_nodes'') (config_colormap cfg)
                 # (if edges g \<noteq> []
                    then [makeLayerEdgeMarkers B \<lparr>frame_id = world_frame cfg, stamp = timestamp_ns\<rparr> (config_graph_layer cfg) g
                            (config_graph cfg) NodeColor_Zero (topology_marker_ns cfg @ ''_edges'')]
                    else []))])
   \<and> sends_on ''freespace_viz'' new =
       (if nodes g = [] then []
        else [MarkerArrayMsg
                (map (\<lambda>id. Marker_default\<lparr>marker_action := DELETE,
                                          marker_id := int32_of_size_t id,
                                          marker_ns := topology_marker_ns cfg @ ''_freespace''\<rparr>)
                   [0 ..< previous_spheres (fst w)]),
              MarkerArrayMsg
                (makePlaceSpheres B \<lparr>frame_id = world_frame cfg, stamp = timestamp_ns\<rparr> g (topology_marker_ns cfg @ ''_freespace'') 0.15)])
   \<and> sends_on ''freespace_graph_viz'' new =
       (if nodes g = [] then []
        else [MarkerArrayMsg
                (makeCentroidMarkersFn B \<lparr>frame_id = world_frame cfg, stamp = timestamp_ns\<rparr>
                   ((config_graph_layer cfg)\<lparr>use_sphere_marker := False, marker_scale := 0.08,
                                              marker_alpha := 0.5\<rparr>)
                   g (config_graph cfg) (topology_marker_ns cfg @ ''_freespace_nodes'')
                   (\<lambda>_. NodeColor_Zero)
                 # (if edges g \<noteq> []
                    then [makeLayerEdgeMarkers B \<lparr>frame_id = world_frame cfg, stamp = timestamp_ns\<rparr> (config_graph_layer cfg) g
                            (config_graph cfg) NodeColor_Zero
                            (topology_marker_ns cfg @ ''_freespace_edges'')]
                    else []))])
   \<and> sends_on ''graph_label_viz'' new =
       (if nodes g = [] \<or> \<not> use_label (config_graph_layer cfg) then []
        else [MarkerArrayMsg
                (map (\<lambda>to_delete. Marker_default\<lparr>marker_action := DELETE,
                                                  marker_id := to_delete,
                                                  marker_ns := topology_marker_ns cfg @ ''_labels''\<rparr>)
                   (fold (\<lambda>previous s.
                            if set_count
                                 (fold (\<lambda>label s. set_insert (marker_id label) s)
                                    (map (\<lambda>id_node_pair.
                        makeTextMarker B \<lparr>frame_id = world_frame cfg, stamp = timestamp_ns\<rparr> (config_graph_layer cfg) (snd id_node_pair)
                          (config_graph cfg) (topology_marker_ns cfg @ ''_labels''))
                   (nodes g)) [])
                                 previous = 0
                            then set_insert previous s else s)
                      (previous_labels (fst w)) [])),
              MarkerArrayMsg
                (map (\<lambda>id_node_pair.
                        makeTextMarker B \<lparr>frame_id = world_frame cfg, stamp = timestamp_ns\<rparr> (config_graph_layer cfg) (snd id_node_pair)
                          (config_graph cfg) (topology_marker_ns cfg @ ''_labels''))
                   (nodes g))])
   \<and> sends_on ''gvd_graph_viz'' new =
       (if v = [] \<and> published_gvd_graph (fst w)
        then [MarkerArrayMsg
                [makeDeleteMarker B \<lparr>frame_id = world_frame cfg, stamp = timestamp_ns\<rparr> 0 (topology_marker_ns cfg @ ''_gvd_graph'' @ ''_nodes''),
                 makeDeleteMarker B \<lparr>frame_id = world_frame cfg, stamp = timestamp_ns\<rparr> 0 (topology_marker_ns cfg @ ''_gvd_graph'' @ ''_edges'')]]
        else if (makeGvdGraphMarkers B v (config_gvd cfg) (config_colormap cfg)
                    (topology_marker_ns cfg @ ''_gvd_graph'')) = [] then []
        else [MarkerArrayMsg
                ((makeGvdGraphMarkers B v (config_gvd cfg) (config_colormap cfg)
                    (topology_marker_ns cfg @ ''_gvd_graph''))
                 [0 := ((makeGvdGraphMarkers B v (config_gvd cfg) (config_colormap cfg)
                    (topology_marker_ns cfg @ ''_gvd_graph'')) ! 0)\<lparr>marker_header := \<lparr>frame_id = world_frame cfg, stamp = timestamp_ns\<rparr>\<rparr>,
                  1 := ((makeGvdGraphMarkers B v (config_gvd cfg) (config_colormap cfg)
                    (topology_marker_ns cfg @ ''_gvd_graph'')) ! 1)\<lparr>marker_header := \<lparr>frame_id = world_frame cfg, stamp = timestamp_ns\<rparr>\<rparr>])])
   \<and> sends_on ''gvd_cluster_viz'' new = []
   \<and> published_gvd_clusters v' = published_gvd_clusters (fst w)"
proof (rule visualizeGvd_sends [of B cfg "\<lparr>frame_id = world_frame cfg, stamp = timestamp_ns\<rparr>" gvd w], goal_cases)
  case slices: (1 v1 n1)
  note quiet1 = sends_on_silent [OF slices(5)]
  show ?case
  proof (rule visualizeGraph_sends [of B cfg "\<lparr>frame_id = world_frame cfg, stamp = timestamp_ns\<rparr>" g "(v1, snd w @ n1)"], goal_cases)
    case graph: (1 v2 n2)
    note quiet2 = sends_on_silent [OF graph(6)]
    show ?case
    proof (rule visualizeGvdGraph_sends
             [OF assms, of "\<lparr>frame_id = world_frame cfg, stamp = timestamp_ns\<rparr>" "(v2, snd w @ n1 @ n2)"], goal_cases)
      case gvdg: (1 v3 n3)
      note quiet3 = sends_on_silent [OF gvdg(3)]
      let ?n4 = "(if show_block_outlines cfg
        then [(''voxel_block_viz'',
               MarkerMsg ((makeBlocksMarker B gvd (outline_scale cfg))
                            \<lparr>marker_header := \<lparr>frame_id = world_frame cfg, stamp = timestamp_ns\<rparr>, marker_ns := ''topology_server_blocks''\<rparr>))]
        else [])"
      have state: "previous_spheres v1 = previous_spheres (fst w)"
        "previous_labels v1 = previous_labels (fst w)"
        "published_gvd_graph v2 = published_gvd_graph (fst w)"
        "published_gvd_clusters v3 = published_gvd_clusters (fst w)"
        using slices(6-9) graph(7,8) gvdg(4) by simp_all
      note graph_sends = graph(2-5) [unfolded fst_conv state]
      note gvd_graph_sends = gvdg(2) [unfolded fst_conv state]
      have "visualize B cfg timestamp_ns gvd (Some (GraphExtractor g v)) w
              = Inr (v3, snd w @ (n1 @ n2 @ n3 @ ?n4))
   \<and> sends_on ''esdf_viz'' (n1 @ n2 @ n3 @ ?n4) =
       (if marker_points (makeEsdfMarker B (config_gvd cfg) (config_colormap cfg) gvd) = [] then []
        else [MarkerMsg ((makeEsdfMarker B (config_gvd cfg) (config_colormap cfg) gvd)
                           \<lparr>marker_header := \<lparr>frame_id = world_frame cfg, stamp = timestamp_ns\<rparr>, marker_ns := ''gvd_visualizer''\<rparr>)])
   \<and> sends_on ''gvd_viz'' (n1 @ n2 @ n3 @ ?n4) =
       (if marker_points (makeGvdMarker B (config_gvd cfg) (config_colormap cfg) gvd) = [] then []
        else [MarkerMsg ((makeGvdMarker B (config_gvd cfg) (config_colormap cfg) gvd)
                           \<lparr>marker_header := \<lparr>frame_id = world_frame cfg, stamp = timestamp_ns\<rparr>, marker_ns := ''gvd_visualizer''\<rparr>)])
   \<and> sends_on ''surface_viz'' (n1 @ n2 @ n3 @ ?n4) =
       (if marker_points (makeSurfaceVoxelMarker B (config_gvd cfg) (config_colormap cfg) gvd) = [] then []
        else [MarkerMsg ((makeSurfaceVoxelMarker B (config_gvd cfg) (config_colormap cfg) gvd)
                           \<lparr>marker_header := \<lparr>frame_id = world_frame cfg, stamp = timestamp_ns\<rparr>, marker_ns := ''gvd_visualizer''\<rparr>)])
   \<and> sends_on ''voxel_block_viz'' (n1 @ n2 @ n3 @ ?n4) =
       (if show_block_outlines cfg
        then [MarkerMsg ((makeBlocksMarker B gvd (outline_scale cfg))
                           \<lparr>marker_header := \<lparr>frame_id = world_frame cfg, stamp = timestamp_ns\<rparr>, marker_ns := ''topology_server_blocks''\<rparr>)]
        else [])
   \<and> sends_on ''graph_viz'' (n1 @ n2 @ n3 @ ?n4) =
       (if nodes g = [] then []
        else [MarkerArrayMsg
                (makeCentroidMarkers B \<lparr>frame_id = world_frame cfg, stamp = timestamp_ns\<rparr> (config_graph_layer cfg) g (config_graph cfg)
                   (topology_marker_ns cfg @ ''_nodes'') (config_colormap cfg)
                 # (if edges g \<noteq> []
                    then [makeLayerEdgeMarkers B \<lparr>frame_id = world_frame cfg, stamp = timestamp_ns\<rparr> (config_graph_layer cfg) g
                            (config_graph cfg) NodeColor_Zero (topology_marker_ns cfg @ ''_edges'')]
                    else []))])
   \<and> sends_on ''freespace_viz'' (n1 @ n2 @ n3 @ ?n4) =
       (if nodes g = [] then []
        else [MarkerArrayMsg
                (map (\<lambda>id. Marker_default\<lparr>marker_action := DELETE,
                                          marker_id := int32_of_size_t id,
                                          marker_ns := topology_marker_ns cfg @ ''_freespace''\<rparr>)
                   [0 ..< previous_spheres (fst w)]),
              MarkerArrayMsg
                (makePlaceSpheres B \<lparr>frame_id = world_frame cfg, stamp = timestamp_ns\<rparr> g (topology_marker_ns cfg @ ''_freespace'') 0.15)])
   \<and> sends_on ''freespace_graph_viz'' (n1 @ n2 @ n3 @ ?n4) =
       (if nodes g = [] then []
        else [MarkerArrayMsg
                (makeCentroidMarkersFn B \<lparr>frame_id = world_frame cfg, stamp = timestamp_ns\<rparr>
                   ((config_graph_layer cfg)\<lparr>use_sphere_marker := False, marker_scale := 0.08,
                                              marker_alpha := 0.5\<rparr>)
                   g (config_graph cfg) (topology_marker_ns cfg @ ''_freespace_nodes'')
                   (\<lambda>_. NodeColor_Zero)
                 # (if edges g \<noteq> []
                    then [makeLayerEdgeMarkers B \<lparr>frame_id = world_frame cfg, stamp = timestamp_ns\<rparr> (config_graph_layer cfg) g
                            (config_graph cfg) NodeColor_Zero
                            (topology_marker_ns cfg @ ''_freespace_edges'')]
                    else []))])
   \<and> sends_on ''graph_label_viz'' (n1 @ n2 @ n3 @ ?n4) =
       (if nodes g = [] \<or> \<not> use_label (config_graph_layer cfg) then []
        else [MarkerArrayMsg
                (map (\<lambda>to_delete. Marker_default\<lparr>marker_action := DELETE,
                                                  marker_id := to_delete,
                                                  marker_ns := topology_marker_ns cfg @ ''_labels''\<rparr>)
                   (fold (\<lambda>previous s.
                            if set_count
                                 (fold (\<lambda>label s. set_insert (marker_id label) s)
                                    (map (\<lambda>id_node_pair.
                        makeTextMarker B \<lparr>frame_id = world_frame cfg, stamp = timestamp_ns\<rparr> (config_graph_layer cfg) (snd id_node_pair)
                          (config_graph cfg) (topology_marker_ns cfg @ ''_labels''))
                   (nodes g)) [])
                                 previous = 0
                            then set_insert previous s else s)
                      (previous_labels (fst w)) [])),
              MarkerArrayMsg
                (map (\<lambda>id_node_pair.
                        makeTextMarker B \<lparr>frame_id = world_frame cfg, stamp = timestamp_ns\<rparr> (config_graph_layer cfg) (snd id_node_pair)
                          (config_graph cfg) (topology_marker_ns cfg @ ''_labels''))
                   (nodes g))])
   \<and> sends_on ''gvd_graph_viz'' (n1 @ n2 @ n3 @ ?n4) =
       (if v = [] \<and> published_gvd_graph (fst w)
        then [MarkerArrayMsg
                [makeDeleteMarker B \<lparr>frame_id = world_frame cfg, stamp = timestamp_ns\<rparr> 0 (topology_marker_ns cfg @ ''_gvd_graph'' @ ''_nodes''),
                 makeDeleteMarker B \<lparr>frame_id = world_frame cfg, stamp = timestamp_ns\<rparr> 0 (topology_marker_ns cfg @ ''_gvd_graph'' @ ''_edges'')]]
        else if (makeGvdGraphMarkers B v (config_gvd cfg) (config_colormap cfg)
                    (topology_marker_ns cfg @ ''_gvd_graph'')) = [] then []
        else [MarkerArrayMsg
                ((makeGvdGraphMarkers B v (config_gvd cfg) (config_colormap cfg)
                    (topology_marker_ns cfg @ ''_gvd_graph''))
                 [0 := ((makeGvdGraphMarkers B v (config_gvd cfg) (config_colormap cfg)
                    (topology_marker_ns cfg @ ''_gvd_graph'')) ! 0)\<lparr>marker_header := \<lparr>frame_id = world_frame cfg, stamp = timestamp_ns\<rparr>\<rparr>,
                  1 := ((makeGvdGraphMarkers B v (config_gvd cfg) (config_colormap cfg)
                    (topology_marker_ns cfg @ ''_gvd_graph'')) ! 1)\<lparr>marker_header := \<lparr>frame_id = world_frame cfg, stamp = timestamp_ns\<rparr>\<rparr>])])
   \<and> sends_on ''gvd_cluster_viz'' (n1 @ n2 @ n3 @ ?n4) = []
   \<and> published_gvd_clusters v3 = published_gvd_clusters (fst w)"
        by (simp add: visualize_GraphExtractor slices(1) graph(1) gvdg(1) and_then_def
            blocks_step sends_on_append blocks_sends slices(2-4) graph_sends gvd_graph_sends
            quiet1 quiet2 quiet3 state split del: if_split)
      then show ?case
        by (rule_tac x = v3 in exI, rule_tac x = "n1 @ n2 @ n3 @ ?n4" in exI)
    qed
  qed
qed

lemma visualize_CompressionGraphExtractor_sends:
  assumes "length (makeGvdGraphMarkers B v (config_gvd cfg) (config_colormap cfg)
                 (topology_marker_ns cfg @ ''_gvd_graph'')) \<noteq> 1"
    and "length (showGvdClusters B (fst (v, i, r)) (fst (snd (v, i, r))) (snd (snd (v, i, r))) (config_gvd cfg)
                 (config_colormap cfg) ''gvd_cluster_graph'') \<noteq> 1"
  shows "\<exists>v' new.
     visualize B cfg timestamp_ns gvd (Some (CompressionGraphExtractor g v i r)) w
       = Inr (v', snd w @ new)
   \<and> sends_on ''esdf_viz'' new =
       (if marker_points (makeEsdfMarker B (config_gvd cfg) (config_colormap cfg) gvd) = [] then []
        else [MarkerMsg ((makeEsdfMarker B (config_gvd cfg) (config_colormap cfg) gvd)
                           \<lparr>marker_header := \<lparr>frame_id = world_frame cfg, stamp = timestamp_ns\<rparr>, marker_ns := ''gvd_visualizer''\<rparr>)])
   \<and> sends_on ''gvd_viz'' new =
       (if marker_points (makeGvdMarker B (config_gvd cfg) (config_colormap cfg) gvd) = [] then []
        else [MarkerMsg ((makeGvdMarker B (config_gvd cfg) (config_colormap cfg) gvd)
                           \<lparr>marker_header := \<lparr>frame_id = world_frame cfg, stamp = timestamp_ns\<rparr>, marker_ns := ''gvd_visualizer''\<rparr>)])
   \<and> sends_on ''surface_viz'' new =
       (if marker_points (makeSurfaceVoxelMarker B (config_gvd cfg) (config_colormap cfg) gvd) = [] then []
        else [MarkerMsg ((makeSurfaceVoxelMarker B (config_gvd cfg) (config_colormap cfg) gvd)
                           \<lparr>marker_header := \<lparr>frame_id = world_frame cfg, stamp = timestamp_ns\<rparr>, marker_ns := ''gvd_visualizer''\<rparr>)])
   \<and> sends_on ''voxel_block_viz'' new =
       (if show_block_outlines cfg
        then [MarkerMsg ((makeBlocksMarker B gvd (outline_scale cfg))
                           \<lparr>marker_header := \<lparr>frame_id = world_frame cfg, stamp = timestamp_ns\<rparr>, marker_ns := ''topology_server_blocks''\<rparr>)]
        else [])
   \<and> sends_on ''graph_viz'' new =
       (if nodes g = [] then []
        else [MarkerArrayMsg
                (makeCentroidMarkers B \<lparr>frame_id = world_frame cfg, stamp = timestamp_ns\<rparr> (config_graph_layer cfg) g (config_graph cfg)
                   (topology_marker_ns cfg @ ''_nodes'') (config_colormap cfg)
                 # (if edges g \<noteq> []
                    then [makeLayerEdgeMarkers B \<lparr>frame_id = world_frame cfg, stamp = timestamp_ns\<rparr> (config_graph_layer cfg) g
                            (config_graph cfg) NodeColor_Zero (topology_marker_ns cfg @ ''_edges'')]
                    else []))])
   \<and> sends_on ''freespace_viz'' new =
       (if nodes g = [] then []
        else [MarkerArrayMsg
                (map (\<lambda>id. Marker_default\<lparr>marker_action := DELETE,
                                          marker_id := int32_of_size_t id,
                                          marker_ns := topology_marker_ns cfg @ ''_freespace''\<rparr>)
                   [0 ..< previous_spheres (fst w)]),
              MarkerArrayMsg
                (makePlaceSpheres B \<lparr>frame_id = world_frame cfg, stamp = timestamp_ns\<rparr> g (topology_marker_ns cfg @ ''_freespace'') 0.15)])
   \<and> sends_on ''freespace_graph_viz'' new =
       (if nodes g = [] then []
        else [MarkerArrayMsg
                (makeCentroidMarkersFn B \<lparr>frame_id = world_frame cfg, stamp = timestamp_ns\<rparr>
                   ((config_graph_layer cfg)\<lparr>use_sphere_marker := False, marker_scale := 0.08,
                                              marker_alpha := 0.5\<rparr>)
                   g (config_graph cfg) (topology_marker_ns cfg @ ''_freespace_nodes'')
                   (\<lambda>_. NodeColor_Zero)
                 # (if edges g \<noteq> []
                    then [makeLayerEdgeMarkers B \<lparr>frame_id = world_frame cfg, stamp = timestamp_ns\<rparr> (config_graph_layer cfg) g
                            (config_graph cfg) NodeColor_Zero
                            (topology_marker_ns cfg @ ''_freespace_edges'')]
                    else []))])
   \<and> sends_on ''graph_label_viz'' new =
       (if nodes g = [] \<or> \<not> use_label (config_graph_layer cfg) then []
        else [MarkerArrayMsg
                (map (\<lambda>to_delete. Marker_default\<lparr>marker_action := DELETE,
                                                  marker_id := to_delete,
                                                  marker_ns := topology_marker_ns cfg @ ''_labels''\<rparr>)
                   (fold (\<lambda>previous s.
                            if set_count
                                 (fold (\<lambda>label s. set_insert (marker_id label) s)
                                    (map (\<lambda>id_node_pair.
                        makeTextMarker B \<lparr>frame_id = world_frame cfg, stamp = timestamp_ns\<rparr> (config_graph_layer cfg) (snd id_node_pair)
                          (config_graph cfg) (topology_marker_ns cfg @ ''_labels''))
                   (nodes g)) [])
                                 previous = 0
                            then set_insert previous s else s)
                      (previous_labels (fst w)) [])),
              MarkerArrayMsg
                (map (\<lambda>id_node_pair.
                        makeTextMarker B \<lparr>frame_id = world_frame cfg, stamp = timestamp_ns\<rparr> (config_graph_layer cfg) (snd id_node_pair)
                          (config_graph cfg) (topology_marker_ns cfg @ ''_labels''))
                   (nodes g))])
   \<and> sends_on ''gvd_graph_viz'' new =
       (if v = [] \<and> published_gvd_graph (fst w)
        then [MarkerArrayMsg
                [makeDeleteMarker B \<lparr>frame_id = world_frame cfg, stamp = timestamp_ns\<rparr> 0 (topology_marker_ns cfg @ ''_gvd_graph'' @ ''_nodes''),
                 makeDeleteMarker B \<lparr>frame_id = world_frame cfg, stamp = timestamp_ns\<rparr> 0 (topology_marker_ns cfg @ ''_gvd_graph'' @ ''_edges'')]]
        else if (makeGvdGraphMarkers B v (config_gvd cfg) (config_colormap cfg)
                    (topology_marker_ns cfg @ ''_gvd_graph'')) = [] then []
        else [MarkerArrayMsg
                ((makeGvdGraphMarkers B v (config_gvd cfg) (config_colormap cfg)
                    (topology_marker_ns cfg @ ''_gvd_graph''))
                 [0 := ((makeGvdGraphMarkers B v (config_gvd cfg) (config_colormap cfg)
                    (topology_marker_ns cfg @ ''_gvd_graph'')) ! 0)\<lparr>marker_header := \<lparr>frame_id = world_frame cfg, stamp = timestamp_ns\<rparr>\<rparr>,
                  1 := ((makeGvdGraphMarkers B v (config_gvd cfg) (config_colormap cfg)
                    (topology_marker_ns cfg @ ''_gvd_graph'')) ! 1)\<lparr>marker_header := \<lparr>frame_id = world_frame cfg, stamp = timestamp_ns\<rparr>\<rparr>])])
   \<and> sends_on ''gvd_cluster_viz'' new =
       (if fst (v, i, r) = [] \<and> published_gvd_clusters (fst w)
        then [MarkerArrayMsg
                [makeDeleteMarker B \<lparr>frame_id = world_frame cfg, stamp = timestamp_ns\<rparr> 0 (''gvd_cluster_graph'' @ ''_nodes''),
                 makeDeleteMarker B \<lparr>frame_id = world_frame cfg, stamp = timestamp_ns\<rparr> 0 (''gvd_cluster_graph'' @ ''_edges'')]]
        else if (showGvdClusters B (fst (v, i, r)) (fst (snd (v, i, r))) (snd (snd (v, i, r))) (config_gvd cfg)
                    (config_colormap cfg) ''gvd_cluster_graph'') = [] then []
        else [MarkerArrayMsg
                ((showGvdClusters B (fst (v, i, r)) (fst (snd (v, i, r))) (snd (snd (v, i, r))) (config_gvd cfg)
                    (config_colormap cfg) ''gvd_cluster_graph'')
                 [0 := ((showGvdClusters B (fst (v, i, r)) (fst (snd (v, i, r))) (snd (snd (v, i, r))) (config_gvd cfg)
                    (config_colormap cfg) ''gvd_cluster_graph'') ! 0)\<lparr>marker_header := \<lparr>frame_id = world_frame cfg, stamp = timestamp_ns\<rparr>\<rparr>,
                  1 := ((showGvdClusters B (fst (v, i, r)) (fst (snd (v, i, r))) (snd (snd (v, i, r))) (config_gvd cfg)
                    (config_colormap cfg) ''gvd_cluster_graph'') ! 1)\<lparr>marker_header := \<lparr>frame_id = world_frame cfg, stamp = timestamp_ns\<rparr>\<rparr>])])"
  using visualize_GraphExtractor_sends [OF assms(1), of timestamp_ns gvd g w]
proof (elim exE conjE, goal_cases)
  case plain: (1 vg ng)
  show ?case
  proof (rule gvd_cluster_viz_sends [OF assms(2), of "\<lparr>frame_id = world_frame cfg, stamp = timestamp_ns\<rparr>" "(vg, snd w @ ng)"], goal_cases)
    case clusters: (1 v5 n5)
    note quiet = sends_on_silent [OF clusters(3)]
    have state: "published_gvd_clusters (fst (vg, snd w @ ng)) = published_gvd_clusters (fst w)"
      using plain(12) by simp
    note cluster_sends = clusters(2) [unfolded state]
    have "visualize B cfg timestamp_ns gvd (Some (CompressionGraphExtractor g v i r)) w
            = Inr (v5, snd w @ (ng @ n5))
   \<and> sends_on ''esdf_viz'' (ng @ n5) =
       (if marker_points (makeEsdfMarker B (config_gvd cfg) (config_colormap cfg) gvd) = [] then []
        else [MarkerMsg ((makeEsdfMarker B (config_gvd cfg) (config_colormap cfg) gvd)
                           \<lparr>marker_header := \<lparr>frame_id = world_frame cfg, stamp = timestamp_ns\<rparr>, marker_ns := ''gvd_visualizer''\<rparr>)])
   \<and> sends_on ''gvd_viz'' (ng @ n5) =
       (if marker_points (makeGvdMarker B (config_gvd cfg) (config_colormap cfg) gvd) = [] then []
        else [MarkerMsg ((makeGvdMarker B (config_gvd cfg) (config_colormap cfg) gvd)
                           \<lparr>marker_header := \<lparr>frame_id = world_frame cfg, stamp = timestamp_ns\<rparr>, marker_ns := ''gvd_visualizer''\<rparr>)])
   \<and> sends_on ''surface_viz'' (ng @ n5) =
       (if marker_points (makeSurfaceVoxelMarker B (config_gvd cfg) (config_colormap cfg) gvd) = [] then []
        else [MarkerMsg ((makeSurfaceVoxelMarker B (config_gvd cfg) (config_colormap cfg) gvd)
                           \<lparr>marker_header := \<lparr>frame_id = world_frame cfg, stamp = timestamp_ns\<rparr>, marker_ns := ''gvd_visualizer''\<rparr>)])
   \<and> sends_on ''voxel_block_viz'' (ng @ n5) =
       (if show_block_outlines cfg
        then [MarkerMsg ((makeBlocksMarker B gvd (outline_scale cfg))
                           \<lparr>marker_header := \<lparr>frame_id = world_frame cfg, stamp = timestamp_ns\<rparr>, marker_ns := ''topology_server_blocks''\<rparr>)]
        else [])
   \<and> sends_on ''graph_viz'' (ng @ n5) =
       (if nodes g = [] then []
        else [MarkerArrayMsg
                (makeCentroidMarkers B \<lparr>frame_id = world_frame cfg, stamp = timestamp_ns\<rparr> (config_graph_layer cfg) g (config_graph cfg)
                   (topology_marker_ns cfg @ ''_nodes'') (config_colormap cfg)
                 # (if edges g \<noteq> []
                    then [makeLayerEdgeMarkers B \<lparr>frame_id = world_frame cfg, stamp = timestamp_ns\<rparr> (config_graph_layer cfg) g
                            (config_graph cfg) NodeColor_Zero (topology_marker_ns cfg @ ''_edges'')]
                    else []))])
   \<and> sends_on ''freespace_viz'' (ng @ n5) =
       (if nodes g = [] then []
        else [MarkerArrayMsg
                (map (\<lambda>id. Marker_default\<lparr>marker_action := DELETE,
                                          marker_id := int32_of_size_t id,
                                          marker_ns := topology_marker_ns cfg @ ''_freespace''\<rparr>)
                   [0 ..< previous_spheres (fst w)]),
              MarkerArrayMsg
                (makePlaceSpheres B \<lparr>frame_id = world_frame cfg, stamp = timestamp_ns\<rparr> g (topology_marker_ns cfg @ ''_freespace'') 0.15)])
   \<and> sends_on ''freespace_graph_viz'' (ng @ n5) =
       (if nodes g = [] then []
        else [MarkerArrayMsg
                (makeCentroidMarkersFn B \<lparr>frame_id = world_frame cfg, stamp = timestamp_ns\<rparr>
                   ((config_graph_layer cfg)\<lparr>use_sphere_marker := False, marker_scale := 0.08,
                                              marker_alpha := 0.5\<rparr>)
                   g (config_graph cfg) (topology_marker_ns cfg @ ''_freespace_nodes'')
                   (\<lambda>_. NodeColor_Zero)
                 # (if edges g \<noteq> []
                    then [makeLayerEdgeMarkers B \<lparr>frame_id = world_frame cfg, stamp = timestamp_ns\<rparr> (config_graph_layer cfg) g
                            (config_graph cfg) NodeColor_Zero
                            (topology_marker_ns cfg @ ''_freespace_edges'')]
                    else []))])
   \<and> sends_on ''graph_label_viz'' (ng @ n5) =
       (if nodes g = [] \<or> \<not> use_label (config_graph_layer cfg) then []
        else [MarkerArrayMsg
                (map (\<lambda>to_delete. Marker_default\<lparr>marker_action := DELETE,
                                                  marker_id := to_delete,
                                                  marker_ns := topology_marker_ns cfg @ ''_labels''\<rparr>)
                   (fold (\<lambda>previous s.
                            if set_count
                                 (fold (\<lambda>label s. set_insert (marker_id label) s)
                                    (map (\<lambda>id_node_pair.
                        makeTextMarker B \<lparr>frame_id = world_frame cfg, stamp = timestamp_ns\<rparr> (config_graph_layer cfg) (snd id_node_pair)
                          (config_graph cfg) (topology_marker_ns cfg @ ''_labels''))
                   (nodes g)) [])
                                 previous = 0
                            then set_insert previous s else s)
                      (previous_labels (fst w)) [])),
              MarkerArrayMsg
                (map (\<lambda>id_node_pair.
                        makeTextMarker B \<lparr>frame_id = world_frame cfg, stamp = timestamp_ns\<rparr> (config_graph_layer cfg) (snd id_node_pair)
                          (config_graph cfg) (topology_marker_ns cfg @ ''_labels''))
                   (nodes g))])
   \<and> sends_on ''gvd_graph_viz'' (ng @ n5) =
       (if v = [] \<and> published_gvd_graph (fst w)
        then [MarkerArrayMsg
                [makeDeleteMarker B \<lparr>frame_id = world_frame cfg, stamp = timestamp_ns\<rparr> 0 (topology_marker_ns cfg @ ''_gvd_graph'' @ ''_nodes''),
                 makeDeleteMarker B \<lparr>frame_id = world_frame cfg, stamp = timestamp_ns\<rparr> 0 (topology_marker_ns cfg @ ''_gvd_graph'' @ ''_edges'')]]
        else if (makeGvdGraphMarkers B v (config_gvd cfg) (config_colormap cfg)
                    (topology_marker_ns cfg @ ''_gvd_graph'')) = [] then []
        else [MarkerArrayMsg
                ((makeGvdGraphMarkers B v (config_gvd cfg) (config_colormap cfg)
                    (topology_marker_ns cfg @ ''_gvd_graph''))
                 [0 := ((makeGvdGraphMarkers B v (config_gvd cfg) (config_colormap cfg)
                    (topology_marker_ns cfg @ ''_gvd_graph'')) ! 0)\<lparr>marker_header := \<lparr>frame_id = world_frame cfg, stamp = timestamp_ns\<rparr>\<rparr>,
                  1 := ((makeGvdGraphMarkers B v (config_gvd cfg) (config_colormap cfg)
                    (topology_marker_ns cfg @ ''_gvd_graph'')) ! 1)\<lparr>marker_header := \<lparr>frame_id = world_frame cfg, stamp = timestamp_ns\<rparr>\<rparr>])])
   \<and> sends_on ''gvd_cluster_viz'' (ng @ n5) =
       (if fst (v, i, r) = [] \<and> published_gvd_clusters (fst w)
        then [MarkerArrayMsg
                [makeDeleteMarker B \<lparr>frame_id = world_frame cfg, stamp = timestamp_ns\<rparr> 0 (''gvd_cluster_graph'' @ ''_nodes''),
                 makeDeleteMarker B \<lparr>frame_id = world_frame cfg, stamp = timestamp_ns\<rparr> 0 (''gvd_cluster_graph'' @ ''_edges'')]]
        else if (showGvdClusters B (fst (v, i, r)) (fst (snd (v, i, r))) (snd (snd (v, i, r))) (config_gvd cfg)
                    (config_colormap cfg) ''gvd_cluster_graph'') = [] then []
        else [MarkerArrayMsg
                ((showGvdClusters B (fst (v, i, r)) (fst (snd (v, i, r))) (snd (snd (v, i, r))) (config_gvd cfg)
                    (config_colormap cfg) ''gvd_cluster_graph'')
                 [0 := ((showGvdClusters B (fst (v, i, r)) (fst (snd (v, i, r))) (snd (snd (v, i, r))) (config_gvd cfg)
                    (config_colormap cfg) ''gvd_cluster_graph'') ! 0)\<lparr>marker_header := \<lparr>frame_id = world_frame cfg, stamp = timestamp_ns\<rparr>\<rparr>,
                  1 := ((showGvdClusters B (fst (v, i, r)) (fst (snd (v, i, r))) (snd (snd (v, i, r))) (config_gvd cfg)
                    (config_colormap cfg) ''gvd_cluster_graph'') ! 1)\<lparr>marker_header := \<lparr>frame_id = world_frame cfg, stamp = timestamp_ns\<rparr>\<rparr>])])"
      by (simp add: visualize_CompressionGraphExtractor plain(1) clusters(1) and_then_def
          sends_on_append plain(2-11) cluster_sends quiet split del: if_split)
    then show ?case
      by (rule_tac x = v5 in exI, rule_tac x = "ng @ n5" in exI)
  qed
qed

lemma visualize_sends:
  assumes "(case extractor of
       None \<Rightarrow> True
     | Some ex \<Rightarrow>
         length (makeGvdGraphMarkers B (getGvdGraph ex) (config_gvd cfg) (config_colormap cfg)
                 (topology_marker_ns cfg @ ''_gvd_graph'')) \<noteq> 1)"
    and "(case dynamic_cast_compression extractor of
       None \<Rightarrow> True
     | Some c \<Rightarrow>
         length (showGvdClusters B (fst c) (fst (snd c)) (snd (snd c)) (config_gvd cfg)
                 (config_colormap cfg) ''gvd_cluster_graph'') \<noteq> 1)"
  shows "\<exists>w'.
     visualize B cfg timestamp_ns gvd extractor w = Inr w'
   \<and> sends_on ''esdf_viz'' (new_sends (snd w) (snd w')) =
       (if marker_points (makeEsdfMarker B (config_gvd cfg) (config_colormap cfg) gvd) = [] then []
        else [MarkerMsg ((makeEsdfMarker B (config_gvd cfg) (config_colormap cfg) gvd)
                           \<lparr>marker_header := \<lparr>frame_id = world_frame cfg, stamp = timestamp_ns\<rparr>, marker_ns := ''gvd_visualizer''\<rparr>)])
   \<and> sends_on ''gvd_viz'' (new_sends (snd w) (snd w')) =
       (if marker_points (makeGvdMarker B (config_gvd cfg) (config_colormap cfg) gvd) = [] then []
        else [MarkerMsg ((makeGvdMarker B (config_gvd cfg) (config_colormap cfg) gvd)
                           \<lparr>marker_header := \<lparr>frame_id = world_frame cfg, stamp = timestamp_ns\<rparr>, marker_ns := ''gvd_visualizer''\<rparr>)])
   \<and> sends_on ''surface_viz'' (new_sends (snd w) (snd w')) =
       (if marker_points (makeSurfaceVoxelMarker B (config_gvd cfg) (config_colormap cfg) gvd) = [] then []
        else [MarkerMsg ((makeSurfaceVoxelMarker B (config_gvd cfg) (config_colormap cfg) gvd)
                           \<lparr>marker_header := \<lparr>frame_id = world_frame cfg, stamp = timestamp_ns\<rparr>, marker_ns := ''gvd_visualizer''\<rparr>)])
   \<and> sends_on ''voxel_block_viz'' (new_sends (snd w) (snd w')) =
       (if show_block_outlines cfg
        then [MarkerMsg ((makeBlocksMarker B gvd (outline_scale cfg))
                           \<lparr>marker_header := \<lparr>frame_id = world_frame cfg, stamp = timestamp_ns\<rparr>, marker_ns := ''topology_server_blocks''\<rparr>)]
        else [])
   \<and> (case extractor of
        None \<Rightarrow>
          sends_on ''graph_viz'' (new_sends (snd w) (snd w')) = []
        \<and> sends_on ''freespace_viz'' (new_sends (snd w) (snd w')) = []
        \<and> sends_on ''freespace_graph_viz'' (new_sends (snd w) (snd w')) = []
        \<and> sends_on ''graph_label_viz'' (new_sends (snd w) (snd w')) = []
        \<and> sends_on ''gvd_graph_viz'' (new_sends (snd w) (snd w')) = []
      | Some ex \<Rightarrow>
          sends_on ''graph_viz'' (new_sends (snd w) (snd w')) =
       (if nodes (getGraph ex) = [] then []
        else [MarkerArrayMsg
                (makeCentroidMarkers B \<lparr>frame_id = world_frame cfg, stamp = timestamp_ns\<rparr> (config_graph_layer cfg) (getGraph ex) (config_graph cfg)
                   (topology_marker_ns cfg @ ''_nodes'') (config_colormap cfg)
                 # (if edges (getGraph ex) \<noteq> []
                    then [makeLayerEdgeMarkers B \<lparr>frame_id = world_frame cfg, stamp = timestamp_ns\<rparr> (config_graph_layer cfg) (getGraph ex)
                            (config_graph cfg) NodeColor_Zero (topology_marker_ns cfg @ ''_edges'')]
                    else []))])
        \<and> sends_on ''freespace_viz'' (new_sends (snd w) (snd w')) =
       (if nodes (getGraph ex) = [] then []
        else [MarkerArrayMsg
                (map (\<lambda>id. Marker_default\<lparr>marker_action := DELETE,
                                          marker_id := int32_of_size_t id,
                                          marker_ns := topology_marker_ns cfg @ ''_freespace''\<rparr>)
                   [0 ..< previous_spheres (fst w)]),
              MarkerArrayMsg
                (makePlaceSpheres B \<lparr>frame_id = world_frame cfg, stamp = timestamp_ns\<rparr> (getGraph ex) (topology_marker_ns cfg @ ''_freespace'') 0.15)])
        \<and> sends_on ''freespace_graph_viz'' (new_sends (snd w) (snd w')) =
       (if nodes (getGraph ex) = [] then []
        else [MarkerArrayMsg
                (makeCentroidMarkersFn B \<lparr>frame_id = world_frame cfg, stamp = timestamp_ns\<rparr>
                   ((config_graph_layer cfg)\<lparr>use_sphere_marker := False, marker_scale := 0.08,
                                              marker_alpha := 0.5\<rparr>)
                   (getGraph ex) (config_graph cfg) (topology_marker_ns cfg @ ''_freespace_nodes'')
                   (\<lambda>_. NodeColor_Zero)
                 # (if edges (getGraph ex) \<noteq> []
                    then [makeLayerEdgeMarkers B \<lparr>frame_id = world_frame cfg, stamp = timestamp_ns\<rparr> (config_graph_layer cfg) (getGraph ex)
                            (config_graph cfg) NodeColor_Zero
                            (topology_marker_ns cfg @ ''_freespace_edges'')]
                    else []))])
        \<and> sends_on ''graph_label_viz'' (new_sends (snd w) (snd w')) =
       (if nodes (getGraph ex) = [] \<or> \<not> use_label (config_graph_layer cfg) then []
        else [MarkerArrayMsg
                (map (\<lambda>to_delete. Marker_default\<lparr>marker_action := DELETE,
                                                  marker_id := to_delete,
                                                  marker_ns := topology_marker_ns cfg @ ''_labels''\<rparr>)
                   (fold (\<lambda>previous s.
                            if set_count
                                 (fold (\<lambda>label s. set_insert (marker_id label) s)
                                    (map (\<lambda>id_node_pair.
                        makeTextMarker B \<lparr>frame_id = world_frame cfg, stamp = timestamp_ns\<rparr> (config_graph_layer cfg) (snd id_node_pair)
                          (config_graph cfg) (topology_marker_ns cfg @ ''_labels''))
                   (nodes (getGraph ex))) [])
                                 previous = 0
                            then set_insert previous s else s)
                      (previous_labels (fst w)) [])),
              MarkerArrayMsg
                (map (\<lambda>id_node_pair.
                        makeTextMarker B \<lparr>frame_id = world_frame cfg, stamp = timestamp_ns\<rparr> (config_graph_layer cfg) (snd id_node_pair)
                          (config_graph cfg) (topology_marker_ns cfg @ ''_labels''))
                   (nodes (getGraph ex)))])
        \<and> sends_on ''gvd_graph_viz'' (new_sends (snd w) (snd w')) =
       (if (getGvdGraph ex) = [] \<and> published_gvd_graph (fst w)
        then [MarkerArrayMsg
                [makeDeleteMarker B \<lparr>frame_id = world_frame cfg, stamp = timestamp_ns\<rparr> 0 (topology_marker_ns cfg @ ''_gvd_graph'' @ ''_nodes''),
                 makeDeleteMarker B \<lparr>frame_id = world_frame cfg, stamp = timestamp_ns\<rparr> 0 (topology_marker_ns cfg @ ''_gvd_graph'' @ ''_edges'')]]
        else if (makeGvdGraphMarkers B (getGvdGraph ex) (config_gvd cfg) (config_colormap cfg)
                    (topology_marker_ns cfg @ ''_gvd_graph'')) = [] then []
        else [MarkerArrayMsg
                ((makeGvdGraphMarkers B (getGvdGraph ex) (config_gvd cfg) (config_colormap cfg)
                    (topology_marker_ns cfg @ ''_gvd_graph''))
                 [0 := ((makeGvdGraphMarkers B (getGvdGraph ex) (config_gvd cfg) (config_colormap cfg)
                    (topology_marker_ns cfg @ ''_gvd_graph'')) ! 0)\<lparr>marker_header := \<lparr>frame_id = world_frame cfg, stamp = timestamp_ns\<rparr>\<rparr>,
                  1 := ((makeGvdGraphMarkers B (getGvdGraph ex) (config_gvd cfg) (config_colormap cfg)
                    (topology_marker_ns cfg @ ''_gvd_graph'')) ! 1)\<lparr>marker_header := \<lparr>frame_id = world_frame cfg, stamp = timestamp_ns\<rparr>\<rparr>])]))
   \<and> (case dynamic_cast_compression extractor of
        None \<Rightarrow>
          sends_on ''gvd_cluster_viz'' (new_sends (snd w) (snd w')) = []
          \<and> published_gvd_clusters (fst w') = published_gvd_clusters (fst w)
      | Some c \<Rightarrow>
          sends_on ''gvd_cluster_viz'' (new_sends (snd w) (snd w')) =
       (if fst c = [] \<and> published_gvd_clusters (fst w)
        then [MarkerArrayMsg
                [makeDeleteMarker B \<lparr>frame_id = world_frame cfg, stamp = timestamp_ns\<rparr> 0 (''gvd_cluster_graph'' @ ''_nodes''),
                 makeDeleteMarker B \<lparr>frame_id = world_frame cfg, stamp = timestamp_ns\<rparr> 0 (''gvd_cluster_graph'' @ ''_edges'')]]
        else if (showGvdClusters B (fst c) (fst (snd c)) (snd (snd c)) (config_gvd cfg)
                    (config_colormap cfg) ''gvd_cluster_graph'') = [] then []
        else [MarkerArrayMsg
                ((showGvdClusters B (fst c) (fst (snd c)) (snd (snd c)) (config_gvd cfg)
                    (config_colormap cfg) ''gvd_cluster_graph'')
                 [0 := ((showGvdClusters B (fst c) (fst (snd c)) (snd (snd c)) (config_gvd cfg)
                    (config_colormap cfg) ''gvd_cluster_graph'') ! 0)\<lparr>marker_header := \<lparr>frame_id = world_frame cfg, stamp = timestamp_ns\<rparr>\<rparr>,
                  1 := ((showGvdClusters B (fst c) (fst (snd c)) (snd (snd c)) (config_gvd cfg)
                    (config_colormap cfg) ''gvd_cluster_graph'') ! 1)\<lparr>marker_header := \<lparr>frame_id = world_frame cfg, stamp = timestamp_ns\<rparr>\<rparr>])]))"
proof (cases extractor)
  case None
  from visualize_None_sends [of B cfg timestamp_ns gvd w]
  show ?thesis
    unfolding None option.case dynamic_cast_compression.simps
  proof (elim exE conjE, goal_cases)
    case (1 v' new)
    then show ?case
      by (intro exI [of _ "(v', snd w @ new)"]) (simp split del: if_split)
  qed
next
  case (Some ex)
  show ?thesis
  proof (cases ex)
    case (GraphExtractor g v)
    from assms(1) have ok: "length (makeGvdGraphMarkers B v (config_gvd cfg) (config_colormap cfg)
                 (topology_marker_ns cfg @ ''_gvd_graph'')) \<noteq> 1"
      unfolding Some GraphExtractor by simp
    from visualize_GraphExtractor_sends [OF ok, of timestamp_ns gvd g w]
    show ?thesis
      unfolding Some GraphExtractor option.case dynamic_cast_compression.simps getGraph.simps
        getGvdGraph.simps
    proof (elim exE conjE, goal_cases)
      case (1 v' new)
      then show ?case
        by (intro exI [of _ "(v', snd w @ new)"]) (simp split del: if_split)
    qed
  next
    case (CompressionGraphExtractor g v i r)
    from assms(1) have ok: "length (makeGvdGraphMarkers B v (config_gvd cfg) (config_colormap cfg)
                 (topology_marker_ns cfg @ ''_gvd_graph'')) \<noteq> 1"
      unfolding Some CompressionGraphExtractor by simp
    from assms(2) have okc: "length (showGvdClusters B (fst (v, i, r)) (fst (snd (v, i, r))) (snd (snd (v, i, r))) (config_gvd cfg)
                 (config_colormap cfg) ''gvd_cluster_graph'') \<noteq> 1"
      unfolding Some CompressionGraphExtractor by simp
    from visualize_CompressionGraphExtractor_sends [OF ok okc, of timestamp_ns gvd g w]
    show ?thesis
      unfolding Some CompressionGraphExtractor option.case dynamic_cast_compression.simps
        getGraph.simps getGvdGraph.simps
    proof (elim exE conjE, goal_cases)
      case (1 v' new)
      then show ?case
        by (intro exI [of _ "(v', snd w @ new)"]) (simp split del: if_split)
    qed
  qed
qed

text \<open>
  C8, amended. Take the GVD graph and cluster builders never to return exactly one marker
  (C10). Then every tick returns normally, and what it sends on each of the ten channels
  is as follows. The worth-sending rule of C8 holds on eight of them:

  \<^item> on \<open>esdf_viz\<close>, \<open>gvd_viz\<close> and \<open>surface_viz\<close> the stamped marker is sent when it has a
    point, and nothing otherwise;
  \<^item> on \<open>graph_viz\<close> and \<open>freespace_graph_viz\<close>, with an extractor whose graph has a node,
    the array is sent, and it is never empty; with no extractor or a graph without nodes
    nothing is built and nothing is sent;
  \<^item> on \<open>graph_label_viz\<close>, with an extractor whose graph has a node and labels enabled,
    the delete batch and then the labels are sent, and there is one label per node; in
    every other case nothing is built and nothing is sent;
  \<^item> on \<open>gvd_graph_viz\<close>, with an extractor, and on \<open>gvd_cluster_viz\<close>, with a compression
    extractor: the two delete markers when the GVD graph is empty and the flag says that
    something was published, else the stamped array when the builder returns markers,
    else nothing; without the extractor nothing is sent.

  It fails on the remaining two, and only there:

  \<^item> on \<open>freespace_viz\<close>, with an extractor whose graph has a node, the delete batch for
    the ids below \<open>previous_spheres_\<close> and then the spheres are both sent, also when both
    are empty;
  \<^item> on \<open>voxel_block_viz\<close>, with block outlines shown, the marker is sent, also when it has
    no point.
\<close>

theorem sends_when_worth_sending:
  "(case extractor of
       None \<Rightarrow> True
     | Some ex \<Rightarrow>
         length (makeGvdGraphMarkers B (getGvdGraph ex) (config_gvd cfg) (config_colormap cfg)
                 (topology_marker_ns cfg @ ''_gvd_graph'')) \<noteq> 1)
   \<and> (case dynamic_cast_compression extractor of
       None \<Rightarrow> True
     | Some c \<Rightarrow>
         length (showGvdClusters B (fst c) (fst (snd c)) (snd (snd c)) (config_gvd cfg)
                 (config_colormap cfg) ''gvd_cluster_graph'') \<noteq> 1)
   \<longrightarrow>
   (\<exists>w'.
     visualize B cfg timestamp_ns gvd extractor w = Inr w'
   \<and> sends_on ''esdf_viz'' (new_sends (snd w) (snd w')) =
       (if marker_points (makeEsdfMarker B (config_gvd cfg) (config_colormap cfg) gvd) = [] then []
        else [MarkerMsg ((makeEsdfMarker B (config_gvd cfg) (config_colormap cfg) gvd)
                           \<lparr>marker_header := \<lparr>frame_id = world_frame cfg, stamp = timestamp_ns\<rparr>, marker_ns := ''gvd_visualizer''\<rparr>)])
   \<and> sends_on ''gvd_viz'' (new_sends (snd w) (snd w')) =
       (if marker_points (makeGvdMarker B (config_gvd cfg) (config_colormap cfg) gvd) = [] then []
        else [MarkerMsg ((makeGvdMarker B (config_gvd cfg) (config_colormap cfg) gvd)
                           \<lparr>marker_header := \<lparr>frame_id = world_frame cfg, stamp = timestamp_ns\<rparr>, marker_ns := ''gvd_visualizer''\<rparr>)])
   \<and> sends_on ''surface_viz'' (new_sends (snd w) (snd w')) =
       (if marker_points (makeSurfaceVoxelMarker B (config_gvd cfg) (config_colormap cfg) gvd) = [] then []
        else [MarkerMsg ((makeSurfaceVoxelMarker B (config_gvd cfg) (config_colormap cfg) gvd)
                           \<lparr>marker_header := \<lparr>frame_id = world_frame cfg, stamp = timestamp_ns\<rparr>, marker_ns := ''gvd_visualizer''\<rparr>)])
   \<and> sends_on ''voxel_block_viz'' (new_sends (snd w) (snd w')) =
       (if show_block_outlines cfg
        then [MarkerMsg ((makeBlocksMarker B gvd (outline_scale cfg))
                           \<lparr>marker_header := \<lparr>frame_id = world_frame cfg, stamp = timestamp_ns\<rparr>, marker_ns := ''topology_server_blocks''\<rparr>)]
        else [])
   \<and> (case extractor of
        None \<Rightarrow>
          sends_on ''graph_viz'' (new_sends (snd w) (snd w')) = []
        \<and> sends_on ''freespace_viz'' (new_sends (snd w) (snd w')) = []
        \<and> sends_on ''freespace_graph_viz'' (new_sends (snd w) (snd w')) = []
        \<and> sends_on ''graph_label_viz'' (new_sends (snd w) (snd w')) = []
        \<and> sends_on ''gvd_graph_viz'' (new_sends (snd w) (snd w')) = []
      | Some ex \<Rightarrow>
          sends_on ''graph_viz'' (new_sends (snd w) (snd w')) =
       (if nodes (getGraph ex) = [] then []
        else [MarkerArrayMsg
                (makeCentroidMarkers B \<lparr>frame_id = world_frame cfg, stamp = timestamp_ns\<rparr> (config_graph_layer cfg) (getGraph ex) (config_graph cfg)
                   (topology_marker_ns cfg @ ''_nodes'') (config_colormap cfg)
                 # (if edges (getGraph ex) \<noteq> []
                    then [makeLayerEdgeMarkers B \<lparr>frame_id = world_frame cfg, stamp = timestamp_ns\<rparr> (config_graph_layer cfg) (getGraph ex)
                            (config_graph cfg) NodeColor_Zero (topology_marker_ns cfg @ ''_edges'')]
                    else []))])
        \<and> sends_on ''freespace_viz'' (new_sends (snd w) (snd w')) =
       (if nodes (getGraph ex) = [] then []
        else [MarkerArrayMsg
                (map (\<lambda>id. Marker_default\<lparr>marker_action := DELETE,
                                          marker_id := int32_of_size_t id,
                                          marker_ns := topology_marker_ns cfg @ ''_freespace''\<rparr>)
                   [0 ..< previous_spheres (fst w)]),
              MarkerArrayMsg
                (makePlaceSpheres B \<lparr>frame_id = world_frame cfg, stamp = timestamp_ns\<rparr> (getGraph ex) (topology_marker_ns cfg @ ''_freespace'') 0.15)])
        \<and> sends_on ''freespace_graph_viz'' (new_sends (snd w) (snd w')) =
       (if nodes (getGraph ex) = [] then []
        else [MarkerArrayMsg
                (makeCentroidMarkersFn B \<lparr>frame_id = world_frame cfg, stamp = timestamp_ns\<rparr>
                   ((config_graph_layer cfg)\<lparr>use_sphere_marker := False, marker_scale := 0.08,
                                              marker_alpha := 0.5\<rparr>)
                   (getGraph ex) (config_graph cfg) (topology_marker_ns cfg @ ''_freespace_nodes'')
                   (\<lambda>_. NodeColor_Zero)
                 # (if edges (getGraph ex) \<noteq> []
                    then [makeLayerEdgeMarkers B \<lparr>frame_id = world_frame cfg, stamp = timestamp_ns\<rparr> (config_graph_layer cfg) (getGraph ex)
                            (config_graph cfg) NodeColor_Zero
                            (topology_marker_ns cfg @ ''_freespace_edges'')]
                    else []))])
        \<and> sends_on ''graph_label_viz'' (new_sends (snd w) (snd w')) =
       (if nodes (getGraph ex) = [] \<or> \<not> use_label (config_graph_layer cfg) then []
        else [MarkerArrayMsg
                (map (\<lambda>to_delete. Marker_default\<lparr>marker_action := DELETE,
                                                  marker_id := to_delete,
                                                  marker_ns := topology_marker_ns cfg @ ''_labels''\<rparr>)
                   (fold (\<lambda>previous s.
                            if set_count
                                 (fold (\<lambda>label s. set_insert (marker_id label) s)
                                    (map (\<lambda>id_node_pair.
                        makeTextMarker B \<lparr>frame_id = world_frame cfg, stamp = timestamp_ns\<rparr> (config_graph_layer cfg) (snd id_node_pair)
                          (config_graph cfg) (topology_marker_ns cfg @ ''_labels''))
                   (nodes (getGraph ex))) [])
                                 previous = 0
                            then set_insert previous s else s)
                      (previous_labels (fst w)) [])),
              MarkerArrayMsg
                (map (\<lambda>id_node_pair.
                        makeTextMarker B \<lparr>frame_id = world_frame cfg, stamp = timestamp_ns\<rparr> (config_graph_layer cfg) (snd id_node_pair)
                          (config_graph cfg) (topology_marker_ns cfg @ ''_labels''))
                   (nodes (getGraph ex)))])
        \<and> sends_on ''gvd_graph_viz'' (new_sends (snd w) (snd w')) =
       (if (getGvdGraph ex) = [] \<and> published_gvd_graph (fst w)
        then [MarkerArrayMsg
                [makeDeleteMarker B \<lparr>frame_id = world_frame cfg, stamp = timestamp_ns\<rparr> 0 (topology_marker_ns cfg @ ''_gvd_graph'' @ ''_nodes''),
                 makeDeleteMarker B \<lparr>frame_id = world_frame cfg, stamp = timestamp_ns\<rparr> 0 (topology_marker_ns cfg @ ''_gvd_graph'' @ ''_edges'')]]
        else if (makeGvdGraphMarkers B (getGvdGraph ex) (config_gvd cfg) (config_colormap cfg)
                    (topology_marker_ns cfg @ ''_gvd_graph'')) = [] then []
        else [MarkerArrayMsg
                ((makeGvdGraphMarkers B (getGvdGraph ex) (config_gvd cfg) (config_colormap cfg)
                    (topology_marker_ns cfg @ ''_gvd_graph''))
                 [0 := ((makeGvdGraphMarkers B (getGvdGraph ex) (config_gvd cfg) (config_colormap cfg)
                    (topology_marker_ns cfg @ ''_gvd_graph'')) ! 0)\<lparr>marker_header := \<lparr>frame_id = world_frame cfg, stamp = timestamp_ns\<rparr>\<rparr>,
                  1 := ((makeGvdGraphMarkers B (getGvdGraph ex) (config_gvd cfg) (config_colormap cfg)
                    (topology_marker_ns cfg @ ''_gvd_graph'')) ! 1)\<lparr>marker_header := \<lparr>frame_id = world_frame cfg, stamp = timestamp_ns\<rparr>\<rparr>])]))
   \<and> (case dynamic_cast_compression extractor of
        None \<Rightarrow>
          sends_on ''gvd_cluster_viz'' (new_sends (snd w) (snd w')) = []
          \<and> published_gvd_clusters (fst w') = published_gvd_clusters (fst w)
      | Some c \<Rightarrow>
          sends_on ''gvd_cluster_viz'' (new_sends (snd w) (snd w')) =
       (if fst c = [] \<and> published_gvd_clusters (fst w)
        then [MarkerArrayMsg
                [makeDeleteMarker B \<lparr>frame_id = world_frame cfg, stamp = timestamp_ns\<rparr> 0 (''gvd_cluster_graph'' @ ''_nodes''),
                 makeDeleteMarker B \<lparr>frame_id = world_frame cfg, stamp = timestamp_ns\<rparr> 0 (''gvd_cluster_graph'' @ ''_edges'')]]
        else if (showGvdClusters B (fst c) (fst (snd c)) (snd (snd c)) (config_gvd cfg)
                    (config_colormap cfg) ''gvd_cluster_graph'') = [] then []
        else [MarkerArrayMsg
                ((showGvdClusters B (fst c) (fst (snd c)) (snd (snd c)) (config_gvd cfg)
                    (config_colormap cfg) ''gvd_cluster_graph'')
                 [0 := ((showGvdClusters B (fst c) (fst (snd c)) (snd (snd c)) (config_gvd cfg)
                    (config_colormap cfg) ''gvd_cluster_graph'') ! 0)\<lparr>marker_header := \<lparr>frame_id = world_frame cfg, stamp = timestamp_ns\<rparr>\<rparr>,
                  1 := ((showGvdClusters B (fst c) (fst (snd c)) (snd (snd c)) (config_gvd cfg)
                    (config_colormap cfg) ''gvd_cluster_graph'') ! 1)\<lparr>marker_header := \<lparr>frame_id = world_frame cfg, stamp = timestamp_ns\<rparr>\<rparr>])])))"
  by (intro impI, elim conjE, rule visualize_sends)

theorem sends_when_worth_sending_witness:
  "length (makeGvdGraphMarkers example_builders [1] (config_gvd example_config)
             (config_colormap example_config)
             (topology_marker_ns example_config @ ''_gvd_graph'')) \<noteq> 1
   \<and> length (showGvdClusters example_builders [1] () () (config_gvd example_config)
             (config_colormap example_config) ''gvd_cluster_graph'') \<noteq> 1
   \<and> (\<exists>w'. visualize example_builders example_config 7 [5]
              (Some (CompressionGraphExtractor (example_graph [4]) [1] () ()))
              (ReconstructionVisualizer False)
            = Inr w'
          \<and> sends_on ''esdf_viz'' (new_sends [] (snd w')) =
              [MarkerMsg \<lparr>marker_header = \<lparr>frame_id = ''world'', stamp = 7\<rparr>,
                          marker_ns = ''gvd_visualizer'', marker_id = 0, marker_action = ADD,
                          marker_points = [5]\<rparr>]
          \<and> sends_on ''voxel_block_viz'' (new_sends [] (snd w')) = []
          \<and> length (sends_on ''graph_viz'' (new_sends [] (snd w'))) = 1
          \<and> length (sends_on ''freespace_viz'' (new_sends [] (snd w'))) = 2
          \<and> length (sends_on ''graph_label_viz'' (new_sends [] (snd w'))) = 2
          \<and> length (sends_on ''gvd_graph_viz'' (new_sends [] (snd w'))) = 1
          \<and> length (sends_on ''gvd_cluster_viz'' (new_sends [] (snd w'))) = 1)"
proof -
  let ?compressing = "Some (CompressionGraphExtractor (example_graph [4]) [1] () ())
                        :: (nat, unit, nat, unit, unit) Extractor option"
  have ok: "length (makeGvdGraphMarkers example_builders [1] (config_gvd example_config)
             (config_colormap example_config)
             (topology_marker_ns example_config @ ''_gvd_graph'')) \<noteq> 1"
    by (simp add: example_builders_def)
  have okc: "length (showGvdClusters example_builders [1] () () (config_gvd example_config)
             (config_colormap example_config) ''gvd_cluster_graph'') \<noteq> 1"
    by (simp add: example_builders_def)
  have hyps: "(case ?compressing of
       None \<Rightarrow> True
     | Some ex \<Rightarrow>
         length (makeGvdGraphMarkers example_builders (getGvdGraph ex) (config_gvd example_config) (config_colormap example_config)
                 (topology_marker_ns example_config @ ''_gvd_graph'')) \<noteq> 1)
   \<and> (case dynamic_cast_compression ?compressing of
       None \<Rightarrow> True
     | Some c \<Rightarrow>
         length (showGvdClusters example_builders (fst c) (fst (snd c)) (snd (snd c)) (config_gvd example_config)
                 (config_colormap example_config) ''gvd_cluster_graph'') \<noteq> 1)"
    by (simp add: example_builders_def)
  from sends_when_worth_sending
         [where B = example_builders and cfg = example_config and timestamp_ns = 7
            and gvd = "[5]" and extractor = ?compressing and w = "ReconstructionVisualizer False",
          THEN mp, OF hyps]
  have "\<exists>w'. visualize example_builders example_config 7 [5]
              (Some (CompressionGraphExtractor (example_graph [4]) [1] () ()))
              (ReconstructionVisualizer False)
            = Inr w'
          \<and> sends_on ''esdf_viz'' (new_sends [] (snd w')) =
              [MarkerMsg \<lparr>marker_header = \<lparr>frame_id = ''world'', stamp = 7\<rparr>,
                          marker_ns = ''gvd_visualizer'', marker_id = 0, marker_action = ADD,
                          marker_points = [5]\<rparr>]
          \<and> sends_on ''voxel_block_viz'' (new_sends [] (snd w')) = []
          \<and> length (sends_on ''graph_viz'' (new_sends [] (snd w'))) = 1
          \<and> length (sends_on ''freespace_viz'' (new_sends [] (snd w'))) = 2
          \<and> length (sends_on ''graph_label_viz'' (new_sends [] (snd w'))) = 2
          \<and> length (sends_on ''gvd_graph_viz'' (new_sends [] (snd w'))) = 1
          \<and> length (sends_on ''gvd_cluster_viz'' (new_sends [] (snd w'))) = 1"
  proof (elim exE conjE, goal_cases)
    case (1 w')
    then show ?case
      by (intro exI [of _ w'])
         (simp add: example_builders_def example_config_def example_graph_def ReconstructionVisualizer_def
          Visualizer_init_def Marker_default_def Header_default_def)
  qed
  with ok okc show ?thesis by (intro conjI)
qed




end
